theory Spec2Isabelle
  imports Main "HOL-Library.Sublist"
begin

section \<open>Go values the server works with\<close>

text \<open>
  The embedding follows \<^verbatim>\<open>internal/mtail/mtail.go\<close>. A Go \<^verbatim>\<open>error\<close> is an
  \<open>error option\<close>: \<open>None\<close> is \<^verbatim>\<open>nil\<close>, \<open>Some msg\<close> an error with that message.
  A \<^verbatim>\<open>time.Duration\<close> is its number of nanoseconds.
\<close>

type_synonym error = string

type_synonym Duration = int

definition Second :: Duration where
  "Second = 1000000000"

text \<open>
  A channel, as far as this file uses one: it is never sent on here, only made, closed
  and received from. The builtin \<^verbatim>\<open>close\<close> panics on a nil channel and on a
  closed one.
\<close>

datatype chan = NilChan | OpenChan | ClosedChan

fun close_builtin :: "chan \<Rightarrow> string + chan" where
  "close_builtin NilChan = Inl ''close of nil channel''"
| "close_builtin ClosedChan = Inl ''close of closed channel''"
| "close_builtin OpenChan = Inr ClosedChan"

text \<open>
  How a call ends: it returns a value; it panics, which its caller may recover; it
  blocks for ever (a receive on a channel nobody closes); it ends the process
  (\<^verbatim>\<open>glog.Exitf\<close>); or the process dies under it of a panic in a goroutine it
  has started, which nobody can recover.
\<close>

datatype 'a outcome = Return 'a | Panic string | Block | Exit | Crash string

text \<open>The text of the run-time panic on a nil pointer.\<close>

definition nil_dereference :: string where
  "nil_dereference = ''runtime error: invalid memory address or nil pointer dereference''"

section \<open>The collaborators, as this file sees them\<close>

text \<open>
  The loader, exporter and tailer are built by \<^verbatim>\<open>vm.NewLoader\<close>,
  \<^verbatim>\<open>exporter.New\<close> and \<^verbatim>\<open>tailer.New\<close> from option lists; the packages
  themselves are outside this file, so each object is recorded by the arguments it was
  built from.
\<close>

datatype loader_option =
    CompileOnly | ErrorsAbort | DumpAst | DumpAstTypes | DumpBytecode
  | SyslogUseCurrentYear | OmitMetricSource | OverrideLocation string

datatype exporter_option = OmitProgLabel | EmitTimestamp

datatype tailer_option = OneShot

record Loader =
  loader_programPath :: string
  loader_opts :: "loader_option list"

record Exporter =
  exporter_opts :: "exporter_option list"

record Tailer =
  tailer_opts :: "tailer_option list"

text \<open>The \<^verbatim>\<open>http.Server\<close>: its handler is the list of routes of the mux, empty when unset.\<close>

record http_Server =
  Handler :: "string list"

record BuildInfo =
  Branch :: string
  Version :: string
  Revision :: string

section \<open>The server\<close>

text \<open>
  The struct \<^verbatim>\<open>Server\<close>, field by field. The one-letter fields \<^verbatim>\<open>w t l e h\<close>
  carry the receiver's name \<^verbatim>\<open>m\<close> as a prefix. A pointer field is an option
  (\<open>None\<close> is nil). \<open>closeOnce\<close> is the \<^verbatim>\<open>sync.Once\<close>: true once its \<^verbatim>\<open>Do\<close> has
  run its function.
\<close>

record Server =
  lines :: chan
  store :: "nat option"
  m_w :: "nat option"
  m_t :: "Tailer option"
  m_l :: "Loader option"
  m_e :: "Exporter option"
  reg :: "string list option"
  m_h :: "http_Server option"
  listener :: "string option"
  webquit :: chan
  closeQuit :: chan
  closeOnce :: bool
  bindAddress :: string
  buildInfo :: BuildInfo
  programPath :: string
  logPathPatterns :: "string list"
  oneShot :: bool
  compileOnly :: bool
  dumpAst :: bool
  dumpAstTypes :: bool
  dumpBytecode :: bool
  overrideLocation :: "string option"
  expiredMetricGcTickInterval :: Duration
  staleLogGcTickInterval :: Duration
  syslogUseCurrentYear :: bool
  omitMetricSource :: bool
  omitProgLabel :: bool
  emitMetricTimestamp :: bool

section \<open>Effects\<close>

text \<open>
  Everything a function of this file does to the world outside the \<^verbatim>\<open>Server\<close>
  struct is an event; a run yields the list of its events in program order. A
  \<^verbatim>\<open>glog\<close> call is recorded with its severity and its arguments, a call of a
  formatting variant (\<^verbatim>\<open>Infof\<close>, \<^verbatim>\<open>Warningf\<close>, \<^verbatim>\<open>Exitf\<close>) with its format too.
\<close>

datatype severity = INFO | WARNING | ERROR | FATAL | V nat

datatype writer = Stdout | ResponseWriter

datatype shutdown_cause = Signal | WebQuit | CloseQuit

datatype event =
    Glog severity "string list"
  | Glogf severity string "string list"
  | ChanClose string
  | TailPattern string
  | TailerClose
  | RecvVMsDone
  | HTTPShutdown Duration
  | CtxCancel
  | Printf string
  | StoreRLock
  | JsonMarshalIndent
  | StoreRUnlock
  | Write writer string
  | HeaderAdd string string
  | WriteHeader nat
  | StoreStartGcLoop Duration
  | TailerStartGcLoop Duration
  | SetHandler "string list"
  | StartMetricPush
  | GoServe string
  | SignalNotify
  | Select shutdown_cause
  | RecvErrc
  | ExporterNew "exporter_option list"
  | Register string
  | SetVersion BuildInfo
  | NewLoader string "loader_option list"
  | LoadAllPrograms
  | TailerNew "tailer_option list"

text \<open>
  What the calls into the other packages and into the Go runtime answer. These are the
  parameters of the model: a theorem that quantifies over \<open>env\<close> holds whatever they
  answer. Every such call is taken to come back; which value it comes back with is
  read here. That holds of a call on a nil collaborator too, which \<^verbatim>\<open>StartTailing\<close>,
  \<^verbatim>\<open>Run\<close> and \<^verbatim>\<open>Serve\<close> make without a check: what a method does with a nil
  receiver is written in its own package. \<open>VMsDone_closed\<close> says whether the loader
  ever closes its \<^verbatim>\<open>VMsDone\<close> channel, \<open>signal_delivered\<close> whether the process is
  ever sent an interrupt or a termination signal, and \<open>select_choice\<close> which case the
  \<^verbatim>\<open>select\<close> in \<^verbatim>\<open>WaitForShutdown\<close> takes when several can fire.
\<close>

record env =
  TailPattern_err :: "string \<Rightarrow> error option"
  tailer_Close_err :: "error option"
  VMsDone_closed :: bool
  Shutdown_err :: "error option"
  exporter_New_err :: "error option"
  NewLoader_err :: "error option"
  LoadAllPrograms_errs :: "string option"
  tailer_New_err :: "error option"
  MarshalIndent_result :: "error + string"
  Write_err :: "string \<Rightarrow> error option"
  signal_delivered :: bool
  select_choice :: shutdown_cause
  Serve_err :: "error option"

text \<open>
  A piece of program: from the server it starts in to how it ends, the server it leaves
  and the events it performed. \<open>andThen\<close> is sequencing: what follows runs only when
  what precedes has returned.
\<close>

type_synonym 'a prog = "Server \<Rightarrow> 'a outcome \<times> Server \<times> event list"

definition ret :: "'a \<Rightarrow> 'a prog" where
  "ret x m = (Return x, m, [])"

definition emit :: "event \<Rightarrow> unit prog" where
  "emit ev m = (Return (), m, [ev])"

definition andThen :: "'a prog \<Rightarrow> ('a \<Rightarrow> 'b prog) \<Rightarrow> 'b prog" where
  "andThen p k m =
     (case p m of
        (Return x, m1, evs1) \<Rightarrow> (case k x m1 of (r, m2, evs2) \<Rightarrow> (r, m2, evs1 @ evs2))
      | (Panic s, m1, evs1) \<Rightarrow> (Panic s, m1, evs1)
      | (Block, m1, evs1) \<Rightarrow> (Block, m1, evs1)
      | (Exit, m1, evs1) \<Rightarrow> (Exit, m1, evs1)
      | (Crash s, m1, evs1) \<Rightarrow> (Crash s, m1, evs1))"

definition thenDo :: "unit prog \<Rightarrow> 'b prog \<Rightarrow> 'b prog" where
  "thenDo p q = andThen p (\<lambda>_. q)"

definition result :: "'r \<times> Server \<times> event list \<Rightarrow> 'r" where
  "result r = fst r"

definition server :: "'r \<times> Server \<times> event list \<Rightarrow> Server" where
  "server r = fst (snd r)"

definition events :: "'r \<times> Server \<times> event list \<Rightarrow> event list" where
  "events r = snd (snd r)"

section \<open>Shutdown\<close>

text \<open>The three \<^verbatim>\<open>close\<close> calls of the file, each on its channel field.\<close>

definition close_closeQuit :: "unit prog" where
  "close_closeQuit m =
     (case close_builtin (closeQuit m) of
        Inl p \<Rightarrow> (Panic p, m, [])
      | Inr c \<Rightarrow> (Return (), m\<lparr>closeQuit := c\<rparr>, [ChanClose ''closeQuit'']))"

definition close_lines :: "unit prog" where
  "close_lines m =
     (case close_builtin (lines m) of
        Inl p \<Rightarrow> (Panic p, m, [])
      | Inr c \<Rightarrow> (Return (), m\<lparr>lines := c\<rparr>, [ChanClose ''lines'']))"

definition close_webquit :: "unit prog" where
  "close_webquit m =
     (case close_builtin (webquit m) of
        Inl p \<Rightarrow> (Panic p, m, [])
      | Inr c \<Rightarrow> (Return (), m\<lparr>webquit := c\<rparr>, [ChanClose ''webquit'']))"

text \<open>\<^verbatim>\<open>m.t.Close()\<close>, \<^verbatim>\<open><-m.l.VMsDone\<close> and \<^verbatim>\<open>m.h.Shutdown(ctx)\<close>.\<close>

definition tailer_Close :: "env \<Rightarrow> error option prog" where
  "tailer_Close env m = (Return (tailer_Close_err env), m, [TailerClose])"

definition recv_VMsDone :: "env \<Rightarrow> unit prog" where
  "recv_VMsDone env m =
     (if VMsDone_closed env then (Return (), m, [RecvVMsDone]) else (Block, m, []))"

definition http_Shutdown :: "env \<Rightarrow> Duration \<Rightarrow> error option prog" where
  "http_Shutdown env timeout m = (Return (Shutdown_err env), m, [HTTPShutdown timeout])"

text \<open>
  The function literal that \<^verbatim>\<open>Close\<close> hands to \<^verbatim>\<open>m.closeOnce.Do\<close>. Its three
  \<^verbatim>\<open>if\<close> statements come first, each under a name of its own: on \<^verbatim>\<open>m.t\<close>, on
  \<^verbatim>\<open>m.l\<close> and on \<^verbatim>\<open>m.h\<close>.
\<close>

definition Close_tailer :: "env \<Rightarrow> unit prog" where
  "Close_tailer env m =
     (if m_t m \<noteq> None
      then andThen (tailer_Close env)
             (\<lambda>err. case err of
                      Some e \<Rightarrow> emit (Glogf INFO ''tailer close failed: %s'' [e])
                    | None \<Rightarrow> ret ()) m
      else thenDo (emit (Glog (V 2) [''No tailer, closing lines channel directly.'']))
             close_lines m)"

definition Close_loader :: "env \<Rightarrow> unit prog" where
  "Close_loader env m =
     (if m_l m \<noteq> None
      then recv_VMsDone env m
      else emit (Glog (V 2) [''No loader, so not waiting for loader shutdown.'']) m)"

definition Close_http :: "env \<Rightarrow> unit prog" where
  "Close_http env m =
     (if m_h m \<noteq> None
      then andThen (http_Shutdown env (5 * Second))
             (\<lambda>err. thenDo (case err of
                              Some e \<Rightarrow> emit (Glog ERROR [e])
                            | None \<Rightarrow> ret ())
                       (emit CtxCancel)) m
      else ret () m)"

definition Close_func :: "env \<Rightarrow> unit prog" where
  "Close_func env =
     thenDo (emit (Glog INFO [''Shutdown requested.'']))
    (thenDo close_closeQuit
    (thenDo (Close_tailer env)
    (thenDo (Close_loader env)
    (thenDo (Close_http env)
       (emit (Glog INFO [''END OF LINE'']))))))"

text \<open>
  \<^verbatim>\<open>m.closeOnce.Do(f)\<close>. A \<^verbatim>\<open>sync.Once\<close> runs \<open>f\<close> on the first call of \<^verbatim>\<open>Do\<close>
  only, under its mutex, and counts the call as done when \<open>f\<close> returns or panics. While
  \<open>f\<close> blocks the guard stays open and the mutex taken.
\<close>

definition closeOnce_Do :: "unit prog \<Rightarrow> unit prog" where
  "closeOnce_Do f m =
     (if closeOnce m then (Return (), m, [])
      else (case f m of
              (Return u, m1, evs) \<Rightarrow> (Return (), m1\<lparr>closeOnce := True\<rparr>, evs)
            | (Panic s, m1, evs) \<Rightarrow> (Panic s, m1\<lparr>closeOnce := True\<rparr>, evs)
            | (Block, m1, evs) \<Rightarrow> (Block, m1, evs)
            | (Exit, m1, evs) \<Rightarrow> (Exit, m1, evs)
            | (Crash s, m1, evs) \<Rightarrow> (Crash s, m1, evs)))"

definition Close :: "env \<Rightarrow> error option prog" where
  "Close env = andThen (closeOnce_Do (Close_func env)) (\<lambda>_. ret None)"

text \<open>
  Calls of \<^verbatim>\<open>Close\<close> made one after the other by callers of their own, each with
  its own answers of the collaborators. After a call that has returned or panicked the
  next caller calls on the server it has left. A call that blocks does so inside
  \<^verbatim>\<open>Do\<close>, holding the mutex of the \<^verbatim>\<open>sync.Once\<close> with the guard open: since no
  call of \<^verbatim>\<open>Do\<close> returns before the one call of the function has, every later
  caller blocks on that mutex, and performs nothing. After the end of the process nobody
  calls.
\<close>

fun Close_calls :: "env list \<Rightarrow> Server \<Rightarrow> error option outcome list \<times> Server \<times> event list" where
  "Close_calls [] m = ([], m, [])"
| "Close_calls (env # envs) m =
     (case Close env m of
        (Return r, m1, evs1) \<Rightarrow>
          (case Close_calls envs m1 of (rs, m2, evs2) \<Rightarrow> (Return r # rs, m2, evs1 @ evs2))
      | (Panic s, m1, evs1) \<Rightarrow>
          (case Close_calls envs m1 of (rs, m2, evs2) \<Rightarrow> (Panic s # rs, m2, evs1 @ evs2))
      | (Block, m1, evs1) \<Rightarrow> (Block # replicate (length envs) Block, m1, evs1)
      | (Exit, m1, evs1) \<Rightarrow> ([Exit], m1, evs1)
      | (Crash s, m1, evs1) \<Rightarrow> ([Crash s], m1, evs1))"

text \<open>
  Concurrent callers of \<^verbatim>\<open>Close\<close>. A caller is at one point of
  \<^verbatim>\<open>m.closeOnce.Do\<close>: it has not called yet; it has found the guard open and waits
  for the mutex of the \<^verbatim>\<open>sync.Once\<close>; it holds the mutex and runs the function;
  it has returned; the function has panicked under it; or the function has blocked under
  it, for ever, with the mutex still taken. A configuration is the server, the events
  performed so far and the callers. \<^verbatim>\<open>Do\<close> returns at once when the guard is shut;
  otherwise it takes the mutex, looks at the guard again, runs the function if the guard
  is still open, and shuts the guard when the function returns or panics. The function
  runs under the mutex, and the other callers of \<^verbatim>\<open>Close\<close> touch nothing but the
  guard and the mutex, so its run is one step here: up to its return, up to its panic, or
  up to the receive it blocks on, with the events performed and the server left up to
  that point. The predicate holds of the configurations that \<open>n\<close> callers can reach
  from the server \<open>m0\<close>, in any interleaving.
\<close>

datatype caller = NotCalled | Waiting | InDo | Returned | Panicked | Blocked

inductive concurrent_Close ::
  "env \<Rightarrow> Server \<Rightarrow> nat \<Rightarrow> Server \<times> event list \<times> caller list \<Rightarrow> bool"
  for env :: env and m0 :: Server and n :: nat where
  init: "concurrent_Close env m0 n (m0, [], replicate n NotCalled)"
| fast: "concurrent_Close env m0 n (m, evs, cs) \<Longrightarrow> i < length cs \<Longrightarrow> cs ! i = NotCalled \<Longrightarrow>
         closeOnce m \<Longrightarrow>
         concurrent_Close env m0 n (m, evs, cs[i := Returned])"
| slow: "concurrent_Close env m0 n (m, evs, cs) \<Longrightarrow> i < length cs \<Longrightarrow> cs ! i = NotCalled \<Longrightarrow>
         \<not> closeOnce m \<Longrightarrow>
         concurrent_Close env m0 n (m, evs, cs[i := Waiting])"
| lock_run: "concurrent_Close env m0 n (m, evs, cs) \<Longrightarrow> i < length cs \<Longrightarrow> cs ! i = Waiting \<Longrightarrow>
         InDo \<notin> set cs \<Longrightarrow> Blocked \<notin> set cs \<Longrightarrow> \<not> closeOnce m \<Longrightarrow>
         concurrent_Close env m0 n (m, evs, cs[i := InDo])"
| lock_done: "concurrent_Close env m0 n (m, evs, cs) \<Longrightarrow> i < length cs \<Longrightarrow> cs ! i = Waiting \<Longrightarrow>
         InDo \<notin> set cs \<Longrightarrow> Blocked \<notin> set cs \<Longrightarrow> closeOnce m \<Longrightarrow>
         concurrent_Close env m0 n (m, evs, cs[i := Returned])"
| run_return: "concurrent_Close env m0 n (m, evs, cs) \<Longrightarrow> i < length cs \<Longrightarrow> cs ! i = InDo \<Longrightarrow>
         Close_func env m = (Return (), m1, evs1) \<Longrightarrow>
         concurrent_Close env m0 n (m1\<lparr>closeOnce := True\<rparr>, evs @ evs1, cs[i := Returned])"
| run_panic: "concurrent_Close env m0 n (m, evs, cs) \<Longrightarrow> i < length cs \<Longrightarrow> cs ! i = InDo \<Longrightarrow>
         Close_func env m = (Panic s, m1, evs1) \<Longrightarrow>
         concurrent_Close env m0 n (m1\<lparr>closeOnce := True\<rparr>, evs @ evs1, cs[i := Panicked])"
| run_block: "concurrent_Close env m0 n (m, evs, cs) \<Longrightarrow> i < length cs \<Longrightarrow> cs ! i = InDo \<Longrightarrow>
         Close_func env m = (Block, m1, evs1) \<Longrightarrow>
         concurrent_Close env m0 n (m1, evs @ evs1, cs[i := Blocked])"

code_pred concurrent_Close .

section \<open>Tailing, metrics dump, the web server\<close>

text \<open>The loop of \<^verbatim>\<open>StartTailing\<close> over \<^verbatim>\<open>m.logPathPatterns\<close>.\<close>

definition call_TailPattern :: "env \<Rightarrow> string \<Rightarrow> error option prog" where
  "call_TailPattern env pattern m = (Return (TailPattern_err env pattern), m, [TailPattern pattern])"

fun StartTailing_loop :: "env \<Rightarrow> string list \<Rightarrow> unit prog" where
  "StartTailing_loop env [] = ret ()"
| "StartTailing_loop env (pattern # rest) =
     thenDo (emit (Glogf (V 1) ''Tail pattern %q'' [pattern]))
    (thenDo (andThen (call_TailPattern env pattern)
               (\<lambda>err. case err of
                        Some e \<Rightarrow> emit (Glog WARNING [e])
                      | None \<Rightarrow> ret ()))
       (StartTailing_loop env rest))"

definition StartTailing :: "env \<Rightarrow> error option prog" where
  "StartTailing env m = thenDo (StartTailing_loop env (logPathPatterns m)) (ret None) m"

text \<open>
  \<^verbatim>\<open>WriteMetrics\<close>. It reaches the lock and the metrics through the pointer
  \<^verbatim>\<open>m.store\<close>: on a nil store it panics in its first statement, before anything is
  marshalled or written. \<^verbatim>\<open>errors.Wrap(err, msg)\<close> is an error with the message
  \<^verbatim>\<open>msg: err\<close>.
\<close>

definition WriteMetrics :: "env \<Rightarrow> writer \<Rightarrow> error option prog" where
  "WriteMetrics env w m =
     (case store m of
        None \<Rightarrow> (Panic nil_dereference, m, [])
      | Some st \<Rightarrow>
          thenDo (emit StoreRLock)
         (andThen (\<lambda>m. (Return (MarshalIndent_result env), m, [JsonMarshalIndent]))
            (\<lambda>r. thenDo (emit StoreRUnlock)
                    (case r of
                       Inl e \<Rightarrow> ret (Some (''failed to marshal metrics into json: '' @ e))
                     | Inr b \<Rightarrow> (\<lambda>m. (Return (Write_err env b), m, [Write w b]))))) m)"

text \<open>
  \<^verbatim>\<open>WaitForShutdown\<close>. A case of its \<^verbatim>\<open>select\<close> can fire when a signal is
  delivered, or when its channel is closed: nothing is ever sent on \<^verbatim>\<open>webquit\<close> and
  \<^verbatim>\<open>closeQuit\<close>, and a receive from an open or a nil channel does not come back. The
  channels are looked at as the server has them when the \<^verbatim>\<open>select\<close> is reached.
  With no case that can fire the \<^verbatim>\<open>select\<close> blocks; among several, the case
  \<open>select_choice\<close> names is taken if it can fire, and the first in the order of the
  source otherwise.
\<close>

definition select_message :: "shutdown_cause \<Rightarrow> string" where
  "select_message c =
     (case c of
        Signal \<Rightarrow> ''Received SIGTERM, exiting...''
      | WebQuit \<Rightarrow> ''Received Quit from HTTP, exiting...''
      | CloseQuit \<Rightarrow> ''Received quit internally, exiting...'')"

definition select_ready :: "env \<Rightarrow> Server \<Rightarrow> shutdown_cause list" where
  "select_ready env m =
     (if signal_delivered env then [Signal] else [])
     @ (if webquit m = ClosedChan then [WebQuit] else [])
     @ (if closeQuit m = ClosedChan then [CloseQuit] else [])"

definition select_case :: "env \<Rightarrow> unit prog" where
  "select_case env m =
     (case select_ready env m of
        [] \<Rightarrow> (Block, m, [])
      | c # cs \<Rightarrow>
          (let fired = (if select_choice env \<in> set (c # cs) then select_choice env else c)
           in (Return (), m, [Select fired, Glog INFO [select_message fired]])))"

definition WaitForShutdown :: "env \<Rightarrow> unit prog" where
  "WaitForShutdown env =
     thenDo (emit SignalNotify)
    (thenDo (select_case env)
       (andThen (Close env)
          (\<lambda>err. case err of
                   Some e \<Rightarrow> emit (Glog WARNING [e])
                 | None \<Rightarrow> ret ())))"

text \<open>
  \<^verbatim>\<open>Serve\<close>. Writing \<^verbatim>\<open>m.h.Handler\<close> through a nil \<^verbatim>\<open>m.h\<close> panics in
  \<^verbatim>\<open>Serve\<close> itself. The goroutine it starts logs the listener's address and calls
  \<^verbatim>\<open>m.h.Serve\<close>; what that call comes back with is read from \<^verbatim>\<open>errc\<close> after
  \<^verbatim>\<open>WaitForShutdown\<close>. Calling \<^verbatim>\<open>Addr\<close> on a nil listener panics inside the
  goroutine, where nothing recovers it: the process dies, whatever \<^verbatim>\<open>Serve\<close> is
  doing by then. That end is put where the goroutine is started.
\<close>

definition mux_routes :: "string list" where
  "mux_routes =
     [''/favicon.ico'', ''/'', ''/json'', ''/metrics'', ''/varz'', ''/quitquitquit'',
      ''/debug/vars'', ''/debug/pprof/'', ''/debug/pprof/cmdline'', ''/debug/pprof/profile'',
      ''/debug/pprof/symbol'', ''/debug/pprof/trace'']"

definition ErrServerClosed :: error where
  "ErrServerClosed = ''http: Server closed''"

definition set_Handler :: "unit prog" where
  "set_Handler m =
     (case m_h m of
        None \<Rightarrow> (Panic nil_dereference, m, [])
      | Some h \<Rightarrow>
          (Return (), m\<lparr>m_h := Some (h\<lparr>Handler := mux_routes\<rparr>)\<rparr>, [SetHandler mux_routes]))"

definition go_Serve :: "unit prog" where
  "go_Serve m =
     (case listener m of
        None \<Rightarrow> (Crash nil_dereference, m, [])
      | Some addr \<Rightarrow> (Return (), m, [Glogf INFO ''Listening on %s'' [addr], GoServe addr]))"

definition recv_errc :: "env \<Rightarrow> error option prog" where
  "recv_errc env m =
     (Return (if Serve_err env = Some ErrServerClosed then None else Serve_err env), m, [RecvErrc])"

definition Serve :: "env \<Rightarrow> error option prog" where
  "Serve env m =
     (if bindAddress m = [] then ret (Some ''No bind address provided.'') m
      else thenDo set_Handler
          (thenDo (emit StartMetricPush)
          (thenDo go_Serve
          (thenDo (WaitForShutdown env)
             (recv_errc env)))) m)"

text \<open>\<^verbatim>\<open>handleQuit\<close>, on a request with the given method.\<close>

definition StatusMethodNotAllowed :: nat where
  "StatusMethodNotAllowed = 405"

definition handleQuit :: "string \<Rightarrow> unit prog" where
  "handleQuit Method m =
     (if Method \<noteq> ''POST''
      then thenDo (emit (HeaderAdd ''Allow'' ''POST''))
             (emit (WriteHeader StatusMethodNotAllowed)) m
      else thenDo (emit (Write ResponseWriter ''Exiting...''))
             close_webquit m)"

section \<open>Run\<close>

text \<open>\<^verbatim>\<open>glog.Exitf\<close> logs and ends the process.\<close>

definition Exitf :: "string \<Rightarrow> string list \<Rightarrow> 'a prog" where
  "Exitf fmt args m = (Exit, m, [Glogf FATAL fmt args])"

definition Run :: "env \<Rightarrow> error option prog" where
  "Run env m =
     (if compileOnly m
      then thenDo (emit (Glog INFO [''compile-only is set, exiting''])) (ret None) m
      else andThen (StartTailing env)
             (\<lambda>err. case err of
                      Some e \<Rightarrow> Exitf ''tailing failed: %s'' [e]
                    | None \<Rightarrow>
                        (\<lambda>m. if oneShot m
                              then andThen (Close env)
                                     (\<lambda>err. case err of
                                              Some e \<Rightarrow> ret (Some e)
                                            | None \<Rightarrow>
                                                thenDo (emit (Printf ''Metrics store:''))
                                                  (andThen (WriteMetrics env Stdout)
                                                     (\<lambda>err. case err of
                                                              Some e \<Rightarrow> ret (Some e)
                                                            | None \<Rightarrow> ret None))) m
                              else thenDo (emit (StoreStartGcLoop (expiredMetricGcTickInterval m)))
                                  (thenDo (emit (TailerStartGcLoop (staleLogGcTickInterval m)))
                                     (andThen (Serve env)
                                        (\<lambda>err. case err of
                                                 Some e \<Rightarrow> ret (Some e)
                                               | None \<Rightarrow> ret None))) m)) m)"

section \<open>Construction\<close>

text \<open>
  The option slice \<^verbatim>\<open>initLoader\<close> builds from the flags, in the order of its
  \<^verbatim>\<open>append\<close> calls.
\<close>

definition initLoader_opts :: "Server \<Rightarrow> loader_option list" where
  "initLoader_opts m =
     (if compileOnly m
      then CompileOnly # (if oneShot m then [ErrorsAbort] else [])
      else [])
     @ (if dumpAst m then [DumpAst] else [])
     @ (if dumpAstTypes m then [DumpAstTypes] else [])
     @ (if dumpBytecode m then [DumpBytecode] else [])
     @ (if syslogUseCurrentYear m then [SyslogUseCurrentYear] else [])
     @ (if omitMetricSource m then [OmitMetricSource] else [])
     @ (case overrideLocation m of
          Some loc \<Rightarrow> [OverrideLocation loc]
        | None \<Rightarrow> [])"

text \<open>
  \<^verbatim>\<open>m.l, err = vm.NewLoader(m.programPath, m.store, m.lines, m.w, opts...)\<close>: the
  field is assigned whatever the call answers, a loader or, with an error, nil.
\<close>

definition call_NewLoader :: "env \<Rightarrow> loader_option list \<Rightarrow> error option prog" where
  "call_NewLoader env opts m =
     (case NewLoader_err env of
        Some e \<Rightarrow> (Return (Some e), m\<lparr>m_l := None\<rparr>, [NewLoader (programPath m) opts])
      | None \<Rightarrow>
          (Return None,
           m\<lparr>m_l := Some \<lparr>loader_programPath = programPath m, loader_opts = opts\<rparr>\<rparr>,
           [NewLoader (programPath m) opts]))"

definition call_LoadAllPrograms :: "env \<Rightarrow> string option prog" where
  "call_LoadAllPrograms env m = (Return (LoadAllPrograms_errs env), m, [LoadAllPrograms])"

text \<open>
  \<^verbatim>\<open>errors.Errorf("Compile encountered errors:\n%s", errs)\<close>: the message is the
  prefix, a newline and the text of \<open>errs\<close>.
\<close>

definition compile_errors :: "string \<Rightarrow> error" where
  "compile_errors errs = ''Compile encountered errors:'' @ [CHR 0x0A] @ errs"

definition initLoader :: "env \<Rightarrow> error option prog" where
  "initLoader env m =
     andThen (call_NewLoader env (initLoader_opts m))
       (\<lambda>err. case err of
                Some e \<Rightarrow> ret (Some e)
              | None \<Rightarrow>
                  (\<lambda>m. if programPath m = [] then ret None m
                        else andThen (call_LoadAllPrograms env)
                               (\<lambda>errs. case errs of
                                         Some d \<Rightarrow> ret (Some (compile_errors d))
                                       | None \<Rightarrow> ret None) m)) m"

definition initExporter_opts :: "Server \<Rightarrow> exporter_option list" where
  "initExporter_opts m =
     (if omitProgLabel m then [OmitProgLabel] else [])
     @ (if emitMetricTimestamp m then [EmitTimestamp] else [])"

definition call_exporter_New :: "env \<Rightarrow> exporter_option list \<Rightarrow> error option prog" where
  "call_exporter_New env opts m =
     (case exporter_New_err env of
        Some e \<Rightarrow> (Return (Some e), m\<lparr>m_e := None\<rparr>, [ExporterNew opts])
      | None \<Rightarrow> (Return None, m\<lparr>m_e := Some \<lparr>exporter_opts = opts\<rparr>\<rparr>, [ExporterNew opts]))"

text \<open>The collectors \<^verbatim>\<open>initExporter\<close> registers, in order, by name.\<close>

definition registered :: "string list" where
  "registered = [''exporter'', ''go'', ''process'', ''mtail_expvar'', ''mtail_build_info'']"

definition initExporter :: "env \<Rightarrow> error option prog" where
  "initExporter env m =
     andThen (call_exporter_New env (initExporter_opts m))
       (\<lambda>err. case err of
                Some e \<Rightarrow> ret (Some e)
              | None \<Rightarrow>
                  (\<lambda>m. (Return None, m\<lparr>reg := Some registered\<rparr>,
                         [Register ''exporter'', Register ''go'', Register ''process'',
                          Register ''mtail_expvar'', SetVersion (buildInfo m),
                          Register ''mtail_build_info'']))) m"

definition initTailer :: "env \<Rightarrow> error option prog" where
  "initTailer env m =
     (let opts = (if oneShot m then [OneShot] else []) in
      case tailer_New_err env of
        Some e \<Rightarrow> (Return (Some e), m\<lparr>m_t := None\<rparr>, [TailerNew opts])
      | None \<Rightarrow> (Return None, m\<lparr>m_t := Some \<lparr>tailer_opts = opts\<rparr>\<rparr>, [TailerNew opts]))"

text \<open>
  An option function \<^verbatim>\<open>func(*Server) error\<close> changes the server and answers an
  error or nil. \<^verbatim>\<open>SetOption\<close> applies them in order and stops at the first error.
\<close>

fun SetOption :: "(Server \<Rightarrow> error option \<times> Server) list \<Rightarrow> error option prog" where
  "SetOption [] = ret None"
| "SetOption (opt # rest) =
     andThen (\<lambda>m. case opt m of (err, m1) \<Rightarrow> (Return err, m1, []))
       (\<lambda>err. case err of
                Some e \<Rightarrow> ret (Some e)
              | None \<Rightarrow> SetOption rest)"

text \<open>The zero value of the struct, and the literal \<^verbatim>\<open>New\<close> starts from.\<close>

definition zero_Server :: Server where
  "zero_Server =
     \<lparr>lines = NilChan, store = None, m_w = None, m_t = None, m_l = None, m_e = None,
      reg = None, m_h = None, listener = None, webquit = NilChan, closeQuit = NilChan,
      closeOnce = False, bindAddress = [],
      buildInfo = \<lparr>Branch = [], Version = [], Revision = []\<rparr>,
      programPath = [], logPathPatterns = [], oneShot = False, compileOnly = False,
      dumpAst = False, dumpAstTypes = False, dumpBytecode = False, overrideLocation = None,
      expiredMetricGcTickInterval = 0, staleLogGcTickInterval = 0,
      syslogUseCurrentYear = False, omitMetricSource = False, omitProgLabel = False,
      emitMetricTimestamp = False\<rparr>"

definition New_literal :: "nat option \<Rightarrow> nat option \<Rightarrow> Server" where
  "New_literal st w =
     zero_Server\<lparr>store := st, lines := OpenChan, m_w := w, webquit := OpenChan,
       closeQuit := OpenChan, m_h := Some \<lparr>Handler = []\<rparr>\<rparr>"

text \<open>
  \<^verbatim>\<open>New\<close> answers \<^verbatim>\<open>(nil, err)\<close>, here \<open>Inl err\<close>, or \<^verbatim>\<open>(m, nil)\<close>, here
  \<open>Inr m\<close>.
\<close>

definition New_steps :: "env \<Rightarrow> (Server \<Rightarrow> error option \<times> Server) list \<Rightarrow> error option prog" where
  "New_steps env options =
     andThen (SetOption options)
       (\<lambda>err. case err of
                Some e \<Rightarrow> ret (Some e)
              | None \<Rightarrow>
                  andThen (initExporter env)
                    (\<lambda>err. case err of
                             Some e \<Rightarrow> ret (Some e)
                           | None \<Rightarrow>
                               andThen (initLoader env)
                                 (\<lambda>err. case err of
                                          Some e \<Rightarrow> ret (Some e)
                                        | None \<Rightarrow> initTailer env)))"

definition New ::
  "env \<Rightarrow> nat option \<Rightarrow> nat option \<Rightarrow> (Server \<Rightarrow> error option \<times> Server) list
   \<Rightarrow> (error + Server) outcome \<times> event list" where
  "New env st w options =
     (case New_steps env options (New_literal st w) of
        (Return None, m, evs) \<Rightarrow> (Return (Inr m), evs)
      | (Return (Some e), m, evs) \<Rightarrow> (Return (Inl e), evs)
      | (Panic s, m, evs) \<Rightarrow> (Panic s, evs)
      | (Block, m, evs) \<Rightarrow> (Block, evs)
      | (Exit, m, evs) \<Rightarrow> (Exit, evs)
      | (Crash s, m, evs) \<Rightarrow> (Crash s, evs))"

section \<open>Vocabulary of the properties\<close>

text \<open>The events that are steps of the shutdown sequence of \<^verbatim>\<open>Close\<close>.\<close>

definition is_shutdown_step :: "event \<Rightarrow> bool" where
  "is_shutdown_step ev =
     (case ev of
        ChanClose c \<Rightarrow> True
      | TailerClose \<Rightarrow> True
      | RecvVMsDone \<Rightarrow> True
      | HTTPShutdown d \<Rightarrow> True
      | _ \<Rightarrow> False)"

text \<open>
  What the three \<^verbatim>\<open>if\<close> statements of \<^verbatim>\<open>Close\<close> perform when they return, and the
  server the function literal leaves; the lemmas below prove that these are the events
  and the server of the definitions above.
\<close>

definition tailer_events :: "env \<Rightarrow> Server \<Rightarrow> event list" where
  "tailer_events env m =
     (if m_t m \<noteq> None
      then TailerClose # (case tailer_Close_err env of
                            Some e \<Rightarrow> [Glogf INFO ''tailer close failed: %s'' [e]]
                          | None \<Rightarrow> [])
      else [Glog (V 2) [''No tailer, closing lines channel directly.''], ChanClose ''lines''])"

definition loader_events :: "Server \<Rightarrow> event list" where
  "loader_events m =
     (if m_l m \<noteq> None then [RecvVMsDone]
      else [Glog (V 2) [''No loader, so not waiting for loader shutdown.'']])"

definition http_events :: "env \<Rightarrow> Server \<Rightarrow> event list" where
  "http_events env m =
     (if m_h m \<noteq> None
      then HTTPShutdown (5 * Second)
             # (case Shutdown_err env of Some e \<Rightarrow> [Glog ERROR [e]] | None \<Rightarrow> [])
             @ [CtxCancel]
      else [])"

definition closed_Server :: "Server \<Rightarrow> Server" where
  "closed_Server m =
     (if m_t m \<noteq> None then m\<lparr>closeQuit := ClosedChan\<rparr>
      else m\<lparr>closeQuit := ClosedChan, lines := ClosedChan\<rparr>)"

section \<open>Concrete servers and environments\<close>

text \<open>
  An environment in which every collaborator succeeds, one in which the tailer's
  \<^verbatim>\<open>Close\<close> and the HTTP shutdown fail, and one whose loader never closes
  \<^verbatim>\<open>VMsDone\<close>.
\<close>

definition quiet_env :: env where
  "quiet_env =
     \<lparr>TailPattern_err = (\<lambda>pattern. None), tailer_Close_err = None, VMsDone_closed = True,
      Shutdown_err = None, exporter_New_err = None, NewLoader_err = None,
      LoadAllPrograms_errs = None, tailer_New_err = None,
      MarshalIndent_result = Inr ''[]'', Write_err = (\<lambda>b. None),
      signal_delivered = True, select_choice = Signal, Serve_err = Some ErrServerClosed\<rparr>"

definition failing_env :: env where
  "failing_env =
     quiet_env\<lparr>tailer_Close_err := Some ''watcher closed'',
       Shutdown_err := Some ''context deadline exceeded''\<rparr>"

definition stuck_env :: env where
  "stuck_env = quiet_env\<lparr>VMsDone_closed := False\<rparr>"

text \<open>The server \<^verbatim>\<open>New\<close> answers when it is given no option and nothing fails.\<close>

definition built_Server :: Server where
  "built_Server =
     (New_literal (Some 0) (Some 0))
       \<lparr>m_e := Some \<lparr>exporter_opts = []\<rparr>, reg := Some registered,
        m_l := Some \<lparr>loader_programPath = [], loader_opts = []\<rparr>,
        m_t := Some \<lparr>tailer_opts = []\<rparr>\<rparr>"

section \<open>Vocabulary of the properties of \<^verbatim>\<open>Run\<close>\<close>

text \<open>What one turn of the loop of \<^verbatim>\<open>StartTailing\<close> performs on a pattern.\<close>

definition pattern_events :: "env \<Rightarrow> string \<Rightarrow> event list" where
  "pattern_events env pattern =
     Glogf (V 1) ''Tail pattern %q'' [pattern] # TailPattern pattern
       # (case TailPattern_err env pattern of
            Some e \<Rightarrow> [Glog WARNING [e]]
          | None \<Rightarrow> [])"

definition is_TailPattern :: "event \<Rightarrow> bool" where
  "is_TailPattern ev = (case ev of TailPattern p \<Rightarrow> True | _ \<Rightarrow> False)"

text \<open>A log call at the severity that ends the process.\<close>

definition is_fatal :: "event \<Rightarrow> bool" where
  "is_fatal ev = (case ev of Glog FATAL args \<Rightarrow> True | Glogf FATAL fmt args \<Rightarrow> True | _ \<Rightarrow> False)"

text \<open>Output on standard output.\<close>

definition is_stdout :: "event \<Rightarrow> bool" where
  "is_stdout ev = (case ev of Printf s \<Rightarrow> True | Write Stdout b \<Rightarrow> True | _ \<Rightarrow> False)"

text \<open>
  Starting the garbage collection loops of the store and of the tailer, and starting the
  web server: installing the handler, starting the metric push and serving.
\<close>

definition starts_gc_or_http :: "event \<Rightarrow> bool" where
  "starts_gc_or_http ev =
     (case ev of
        StoreStartGcLoop d \<Rightarrow> True
      | TailerStartGcLoop d \<Rightarrow> True
      | SetHandler routes \<Rightarrow> True
      | StartMetricPush \<Rightarrow> True
      | GoServe addr \<Rightarrow> True
      | _ \<Rightarrow> False)"

text \<open>
  A one-shot server with two log path patterns, an environment in which the first of
  them cannot be tailed, and one in which the metrics cannot be marshalled.
\<close>

definition oneShot_Server :: Server where
  "oneShot_Server =
     built_Server\<lparr>oneShot := True, logPathPatterns := [''/var/log/a*.log'', ''/var/log/b.log''],
       m_t := Some \<lparr>tailer_opts = [OneShot]\<rparr>\<rparr>"

definition glob_env :: env where
  "glob_env =
     quiet_env\<lparr>TailPattern_err :=
       (\<lambda>pattern. if pattern = ''/var/log/a*.log'' then Some ''syntax error in pattern'' else None)\<rparr>"

definition marshal_env :: env where
  "marshal_env = quiet_env\<lparr>MarshalIndent_result := Inl ''json: unsupported value: NaN''\<rparr>"

section \<open>Vocabulary of the properties of the construction\<close>


text \<open>
  An option function that sets the program path and one that sets the dump flags, as a
  caller of \<^verbatim>\<open>New\<close> hands them over; an environment in which the initial load
  reports two diagnostics, and one in which \<^verbatim>\<open>vm.NewLoader\<close> fails.
\<close>

definition ProgramPath :: "string \<Rightarrow> Server \<Rightarrow> error option \<times> Server" where
  "ProgramPath path m = (None, m\<lparr>programPath := path\<rparr>)"

definition DumpFlags :: "Server \<Rightarrow> error option \<times> Server" where
  "DumpFlags m = (None, m\<lparr>dumpAst := True, dumpBytecode := True\<rparr>)"

definition diagnostics :: string where
  "diagnostics = ''a.mtail:1:1: syntax error'' @ [CHR 0x0A] @ ''b.mtail:3:7: undefined symbol''"

definition load_errors_env :: env where
  "load_errors_env = quiet_env\<lparr>LoadAllPrograms_errs := Some diagnostics\<rparr>"

definition no_loader_env :: env where
  "no_loader_env = quiet_env\<lparr>NewLoader_err := Some ''loader needs a store and lines''\<rparr>"

section \<open>Facts about sequencing and the example values\<close>

lemmas prog_defs = ret_def emit_def andThen_def thenDo_def

lemmas proj_defs = result_def server_def events_def

lemma built_Server_simps:
  "\<not> closeOnce built_Server" "closeQuit built_Server = OpenChan" "lines built_Server = OpenChan"
  "m_t built_Server = Some \<lparr>tailer_opts = []\<rparr>"
  "m_l built_Server = Some \<lparr>loader_programPath = [], loader_opts = []\<rparr>"
  "m_h built_Server = Some \<lparr>Handler = []\<rparr>"
  "logPathPatterns built_Server = []" "\<not> oneShot built_Server" "\<not> compileOnly built_Server"
  "store built_Server = Some 0"
  by (simp_all add: built_Server_def New_literal_def zero_Server_def)

text \<open>\<open>built_Server\<close> is the server \<^verbatim>\<open>New\<close> answers.\<close>

lemma New_built_Server: "fst (New quiet_env (Some 0) (Some 0) []) = Return (Inr built_Server)"
  by (simp add: New_def New_steps_def andThen_def ret_def initExporter_def initLoader_def
        initTailer_def call_exporter_New_def call_NewLoader_def initExporter_opts_def
        initLoader_opts_def quiet_env_def built_Server_def New_literal_def zero_Server_def)

lemma quiet_env_simps:
  "tailer_Close_err quiet_env = None" "Shutdown_err quiet_env = None" "VMsDone_closed quiet_env"
  "MarshalIndent_result quiet_env = Inr ''[]''" "Write_err quiet_env b = None"
  "NewLoader_err quiet_env = None" "exporter_New_err quiet_env = None"
  "LoadAllPrograms_errs quiet_env = None" "TailPattern_err quiet_env p = None"
  by (simp_all add: quiet_env_def)

lemma failing_env_simps:
  "tailer_Close_err failing_env = Some ''watcher closed''"
  "Shutdown_err failing_env = Some ''context deadline exceeded''"
  "VMsDone_closed failing_env"
  by (simp_all add: failing_env_def quiet_env_def)

section \<open>What \<^verbatim>\<open>Close\<close> does, case by case\<close>

lemma Close_tailer_Return:
  "m_t m \<noteq> None \<or> lines m = OpenChan \<Longrightarrow>
   Close_tailer env m =
     (Return (), (if m_t m \<noteq> None then m else m\<lparr>lines := ClosedChan\<rparr>), tailer_events env m)"
  by (auto simp add: Close_tailer_def prog_defs tailer_Close_def close_lines_def tailer_events_def
        split: option.splits)

lemma Close_tailer_Panic:
  "m_t m = None \<Longrightarrow> lines m \<noteq> OpenChan \<Longrightarrow>
   Close_tailer env m =
     (Panic (if lines m = NilChan then ''close of nil channel'' else ''close of closed channel''),
      m, [Glog (V 2) [''No tailer, closing lines channel directly.'']])"
  by (cases "lines m") (simp_all add: Close_tailer_def prog_defs close_lines_def)

lemma Close_loader_Return:
  "m_l m = None \<or> VMsDone_closed env \<Longrightarrow> Close_loader env m = (Return (), m, loader_events m)"
  by (auto simp add: Close_loader_def prog_defs recv_VMsDone_def loader_events_def)

lemma Close_loader_Block:
  "m_l m \<noteq> None \<Longrightarrow> \<not> VMsDone_closed env \<Longrightarrow> Close_loader env m = (Block, m, [])"
  by (simp add: Close_loader_def prog_defs recv_VMsDone_def)

lemma Close_http_Return: "Close_http env m = (Return (), m, http_events env m)"
  by (simp add: Close_http_def prog_defs http_Shutdown_def http_events_def split: option.splits)

lemma close_closeQuit_Return:
  "closeQuit m = OpenChan \<Longrightarrow>
   close_closeQuit m = (Return (), m\<lparr>closeQuit := ClosedChan\<rparr>, [ChanClose ''closeQuit''])"
  by (simp add: close_closeQuit_def)

lemma close_closeQuit_Panic:
  "closeQuit m \<noteq> OpenChan \<Longrightarrow>
   close_closeQuit m =
     (Panic (if closeQuit m = NilChan then ''close of nil channel''
             else ''close of closed channel''), m, [])"
  by (cases "closeQuit m") (simp_all add: close_closeQuit_def)

lemma Close_func_closeQuit_Panic:
  assumes "closeQuit m \<noteq> OpenChan"
  shows "Close_func env m =
     (Panic (if closeQuit m = NilChan then ''close of nil channel''
             else ''close of closed channel''),
      m, [Glog INFO [''Shutdown requested.'']])"
  by (simp add: Close_func_def prog_defs close_closeQuit_Panic [OF assms])

lemma Close_func_lines_Panic:
  assumes "closeQuit m = OpenChan" "m_t m = None" "lines m \<noteq> OpenChan"
  shows "Close_func env m =
     (Panic (if lines m = NilChan then ''close of nil channel'' else ''close of closed channel''),
      m\<lparr>closeQuit := ClosedChan\<rparr>,
      [Glog INFO [''Shutdown requested.''], ChanClose ''closeQuit'',
       Glog (V 2) [''No tailer, closing lines channel directly.'']])"
proof -
  let ?m1 = "m\<lparr>closeQuit := ClosedChan\<rparr>"
  have t: "Close_tailer env ?m1 =
     (Panic (if lines m = NilChan then ''close of nil channel'' else ''close of closed channel''),
      ?m1, [Glog (V 2) [''No tailer, closing lines channel directly.'']])"
    using Close_tailer_Panic [of ?m1 env] assms by simp
  show ?thesis
    by (simp add: Close_func_def prog_defs close_closeQuit_Return [OF assms(1)] t)
qed

lemma Close_func_Block:
  assumes "closeQuit m = OpenChan" "m_t m \<noteq> None \<or> lines m = OpenChan"
    "m_l m \<noteq> None" "\<not> VMsDone_closed env"
  shows "Close_func env m =
     (Block, closed_Server m,
      Glog INFO [''Shutdown requested.''] # ChanClose ''closeQuit'' # tailer_events env m)"
proof -
  let ?m1 = "m\<lparr>closeQuit := ClosedChan\<rparr>"
  have t: "Close_tailer env ?m1 = (Return (), closed_Server m, tailer_events env m)"
    using Close_tailer_Return [of ?m1 env] assms
    by (auto simp add: closed_Server_def tailer_events_def)
  have l: "Close_loader env (closed_Server m) = (Block, closed_Server m, [])"
    using Close_loader_Block [of "closed_Server m" env] assms by (simp add: closed_Server_def)
  show ?thesis
    by (simp add: Close_func_def prog_defs close_closeQuit_Return [OF assms(1)] t l)
qed

lemma Close_func_Return:
  assumes "closeQuit m = OpenChan" "m_t m \<noteq> None \<or> lines m = OpenChan"
    "m_l m = None \<or> VMsDone_closed env"
  shows "Close_func env m =
     (Return (), closed_Server m,
      Glog INFO [''Shutdown requested.''] # ChanClose ''closeQuit'' # tailer_events env m
        @ loader_events m @ http_events env m @ [Glog INFO [''END OF LINE'']])"
proof -
  let ?m1 = "m\<lparr>closeQuit := ClosedChan\<rparr>"
  have t: "Close_tailer env ?m1 = (Return (), closed_Server m, tailer_events env m)"
    using Close_tailer_Return [of ?m1 env] assms
    by (auto simp add: closed_Server_def tailer_events_def)
  have l: "Close_loader env (closed_Server m) = (Return (), closed_Server m, loader_events m)"
    using Close_loader_Return [of "closed_Server m" env] assms
    by (simp add: closed_Server_def loader_events_def)
  have h: "Close_http env (closed_Server m) = (Return (), closed_Server m, http_events env m)"
    by (simp add: Close_http_Return) (simp add: closed_Server_def http_events_def)
  show ?thesis
    by (simp add: Close_func_def prog_defs close_closeQuit_Return [OF assms(1)] t l h)
qed

lemma Close_done: "closeOnce m \<Longrightarrow> Close env m = (Return None, m, [])"
  by (simp add: Close_def closeOnce_Do_def prog_defs)

lemma Close_closeQuit_Panic:
  assumes "\<not> closeOnce m" "closeQuit m \<noteq> OpenChan"
  shows "Close env m =
     (Panic (if closeQuit m = NilChan then ''close of nil channel''
             else ''close of closed channel''),
      m\<lparr>closeOnce := True\<rparr>, [Glog INFO [''Shutdown requested.'']])"
  using assms(1)
  by (simp add: Close_def closeOnce_Do_def prog_defs Close_func_closeQuit_Panic [OF assms(2)])

lemma Close_lines_Panic:
  assumes "\<not> closeOnce m" "closeQuit m = OpenChan" "m_t m = None" "lines m \<noteq> OpenChan"
  shows "Close env m =
     (Panic (if lines m = NilChan then ''close of nil channel'' else ''close of closed channel''),
      m\<lparr>closeQuit := ClosedChan, closeOnce := True\<rparr>,
      [Glog INFO [''Shutdown requested.''], ChanClose ''closeQuit'',
       Glog (V 2) [''No tailer, closing lines channel directly.'']])"
  using assms(1)
  by (simp add: Close_def closeOnce_Do_def prog_defs Close_func_lines_Panic [OF assms(2-4)])

lemma Close_Block:
  assumes "\<not> closeOnce m" "closeQuit m = OpenChan" "m_t m \<noteq> None \<or> lines m = OpenChan"
    "m_l m \<noteq> None" "\<not> VMsDone_closed env"
  shows "Close env m =
     (Block, closed_Server m,
      Glog INFO [''Shutdown requested.''] # ChanClose ''closeQuit'' # tailer_events env m)"
  using assms(1)
  by (simp add: Close_def closeOnce_Do_def prog_defs Close_func_Block [OF assms(2-5)])

lemma Close_Return:
  assumes "\<not> closeOnce m" "closeQuit m = OpenChan" "m_t m \<noteq> None \<or> lines m = OpenChan"
    "m_l m = None \<or> VMsDone_closed env"
  shows "Close env m =
     (Return None, (closed_Server m)\<lparr>closeOnce := True\<rparr>,
      Glog INFO [''Shutdown requested.''] # ChanClose ''closeQuit'' # tailer_events env m
        @ loader_events m @ http_events env m @ [Glog INFO [''END OF LINE'']])"
  using assms(1)
  by (simp add: Close_def closeOnce_Do_def prog_defs Close_func_Return [OF assms(2-4)])

text \<open>The five ways a call of \<^verbatim>\<open>Close\<close> can go.\<close>

lemma Close_cases:
  fixes m :: Server and env :: env
  obtains (already) "closeOnce m"
  | (bad_closeQuit) "\<not> closeOnce m" "closeQuit m \<noteq> OpenChan"
  | (bad_lines) "\<not> closeOnce m" "closeQuit m = OpenChan" "m_t m = None" "lines m \<noteq> OpenChan"
  | (blocked) "\<not> closeOnce m" "closeQuit m = OpenChan" "m_t m \<noteq> None \<or> lines m = OpenChan"
      "m_l m \<noteq> None" "\<not> VMsDone_closed env"
  | (returns) "\<not> closeOnce m" "closeQuit m = OpenChan" "m_t m \<noteq> None \<or> lines m = OpenChan"
      "m_l m = None \<or> VMsDone_closed env"
  by atomize_elim auto

lemma filter_tailer_events:
  "filter is_shutdown_step (tailer_events env m) =
     [if m_t m \<noteq> None then TailerClose else ChanClose ''lines'']"
  by (simp add: tailer_events_def is_shutdown_step_def split: option.splits)

lemma filter_loader_events:
  "filter is_shutdown_step (loader_events m) = (if m_l m \<noteq> None then [RecvVMsDone] else [])"
  by (simp add: loader_events_def is_shutdown_step_def)

lemma filter_http_events:
  "filter is_shutdown_step (http_events env m) =
     (if m_h m \<noteq> None then [HTTPShutdown (5 * Second)] else [])"
  by (simp add: http_events_def is_shutdown_step_def split: option.splits)

lemma HTTPShutdown_notin_tailer_events: "HTTPShutdown d \<notin> set (tailer_events env m)"
  by (simp add: tailer_events_def split: option.splits)

lemma HTTPShutdown_notin_loader_events: "HTTPShutdown d \<notin> set (loader_events m)"
  by (simp add: loader_events_def)

lemma HTTPShutdown_in_http_events:
  "HTTPShutdown d \<in> set (http_events env m) \<longleftrightarrow> m_h m \<noteq> None \<and> d = 5 * Second"
  by (auto simp add: http_events_def split: option.splits)

lemma dropWhile_http_events:
  "m_h m \<noteq> None \<Longrightarrow>
   dropWhile (\<lambda>ev. ev \<noteq> HTTPShutdown (5 * Second))
     (Glog INFO [''Shutdown requested.''] # ChanClose ''closeQuit'' # tailer_events env m
        @ loader_events m @ http_events env m @ [Glog INFO [''END OF LINE'']])
   = http_events env m @ [Glog INFO [''END OF LINE'']]"
  by (simp add: tailer_events_def loader_events_def http_events_def split: option.splits)

section \<open>The order of the shutdown steps\<close>

text \<open>
  Claim C1, as amended. A call of \<^verbatim>\<open>Close\<close> that finds the once-guard open performs
  the shutdown steps in this order and no others: it closes \<^verbatim>\<open>closeQuit\<close>; it closes
  the line ingestion, by the tailer's \<^verbatim>\<open>Close\<close> when there is a tailer and by closing
  \<^verbatim>\<open>lines\<close> itself otherwise; when there is a loader, and only then, it receives from
  \<^verbatim>\<open>VMsDone\<close>; when there is an HTTP server, and only then, it shuts it down with a
  timeout of five seconds. The steps of a call that panics or blocks are a prefix of that
  sequence, a call that returns has performed all of it, and a call that waits on a
  loader that never closes \<^verbatim>\<open>VMsDone\<close> never reaches the HTTP shutdown.
\<close>

theorem Close_steps_in_order:
  assumes "\<not> closeOnce m"
  shows "let order = ChanClose ''closeQuit''
                 # (if m_t m \<noteq> None then TailerClose else ChanClose ''lines'')
                 # (if m_l m \<noteq> None then [RecvVMsDone] else [])
                 @ (if m_h m \<noteq> None then [HTTPShutdown (5 * Second)] else [])
         in prefix (filter is_shutdown_step (events (Close env m))) order
          \<and> (result (Close env m) = Return None
               \<longrightarrow> filter is_shutdown_step (events (Close env m)) = order)
          \<and> (m_l m \<noteq> None \<and> \<not> VMsDone_closed env
               \<longrightarrow> (\<forall>d. HTTPShutdown d \<notin> set (events (Close env m))))"
proof (cases rule: Close_cases [where m=m and env=env])
  case already
  with assms show ?thesis by simp
next
  case bad_closeQuit
  then show ?thesis
    by (simp add: Close_closeQuit_Panic proj_defs is_shutdown_step_def Let_def)
next
  case bad_lines
  then show ?thesis
    by (simp add: Close_lines_Panic proj_defs is_shutdown_step_def Let_def)
next
  case blocked
  then show ?thesis
    by (simp add: Close_Block proj_defs Let_def filter_tailer_events
          HTTPShutdown_notin_tailer_events) (simp add: is_shutdown_step_def)
next
  case returns
  then show ?thesis
    by (simp add: Close_Return proj_defs Let_def filter_tailer_events filter_loader_events
          filter_http_events) (auto simp add: is_shutdown_step_def)
qed

text \<open>On the server \<^verbatim>\<open>New\<close> builds, the four steps, in order.\<close>

theorem Close_steps_in_order_witness:
  "\<not> closeOnce built_Server
   \<and> result (Close quiet_env built_Server) = Return None
   \<and> filter is_shutdown_step (events (Close quiet_env built_Server))
       = [ChanClose ''closeQuit'', TailerClose, RecvVMsDone, HTTPShutdown 5000000000]"
proof -
  have a: "\<not> closeOnce built_Server"
    by (simp add: built_Server_simps)
  have b: "result (Close quiet_env built_Server) = Return None"
    by (simp add: Close_Return proj_defs built_Server_simps quiet_env_simps)
  show ?thesis
    using Close_steps_in_order [OF a, of quiet_env] a b
    by (simp add: Let_def Second_def built_Server_simps)
qed

text \<open>
  The claim as stated has every such call wait for \<^verbatim>\<open>VMsDone\<close> and then shut the
  HTTP server down. A server without a loader is shut down without that wait: the HTTP
  shutdown follows the tailer's \<^verbatim>\<open>Close\<close> directly. On a server without an HTTP
  server the sequence ends with the wait.
\<close>

theorem Close_steps_counterexample:
  "result (Close quiet_env (built_Server\<lparr>m_l := None\<rparr>)) = Return None
   \<and> filter is_shutdown_step (events (Close quiet_env (built_Server\<lparr>m_l := None\<rparr>)))
       = [ChanClose ''closeQuit'', TailerClose, HTTPShutdown (5 * Second)]
   \<and> result (Close quiet_env (built_Server\<lparr>m_h := None\<rparr>)) = Return None
   \<and> filter is_shutdown_step (events (Close quiet_env (built_Server\<lparr>m_h := None\<rparr>)))
       = [ChanClose ''closeQuit'', TailerClose, RecvVMsDone]"
  by (simp add: Close_Return proj_defs built_Server_simps quiet_env_simps filter_tailer_events
        filter_loader_events filter_http_events)
     (simp add: is_shutdown_step_def)

section \<open>The timeout of the HTTP shutdown\<close>

text \<open>
  Claim C7. Whenever a call of \<^verbatim>\<open>Close\<close> shuts the HTTP server down, the context it
  hands to \<^verbatim>\<open>Shutdown\<close> has a timeout of exactly five seconds
  (\<open>5000000000\<close> nanoseconds). Whatever error \<^verbatim>\<open>Shutdown\<close> answers, a deadline
  that passed included, is logged with \<^verbatim>\<open>glog.Error\<close> and nothing else is done
  with it: the context is cancelled, the last line is logged and \<^verbatim>\<open>Close\<close> returns
  nil.
\<close>

theorem Close_HTTP_shutdown_timeout:
  assumes "HTTPShutdown d \<in> set (events (Close env m))"
  shows "d = 5 * Second \<and> d = 5000000000
       \<and> result (Close env m) = Return None
       \<and> dropWhile (\<lambda>ev. ev \<noteq> HTTPShutdown d) (events (Close env m))
           = HTTPShutdown d
               # (case Shutdown_err env of Some e \<Rightarrow> [Glog ERROR [e]] | None \<Rightarrow> [])
               @ [CtxCancel, Glog INFO [''END OF LINE'']]"
proof (cases rule: Close_cases [where m=m and env=env])
  case already
  with assms show ?thesis by (simp add: Close_done proj_defs)
next
  case bad_closeQuit
  with assms show ?thesis by (simp add: Close_closeQuit_Panic proj_defs)
next
  case bad_lines
  with assms show ?thesis by (simp add: Close_lines_Panic proj_defs)
next
  case blocked
  with assms show ?thesis
    by (simp add: Close_Block proj_defs HTTPShutdown_notin_tailer_events)
next
  case returns
  have ev: "events (Close env m) =
      Glog INFO [''Shutdown requested.''] # ChanClose ''closeQuit'' # tailer_events env m
        @ loader_events m @ http_events env m @ [Glog INFO [''END OF LINE'']]"
    and res: "result (Close env m) = Return None"
    using returns by (simp_all add: Close_Return proj_defs)
  from assms have h: "m_h m \<noteq> None" and d: "d = 5 * Second"
    by (simp_all add: ev HTTPShutdown_notin_tailer_events HTTPShutdown_notin_loader_events
          HTTPShutdown_in_http_events)
  have "dropWhile (\<lambda>ev. ev \<noteq> HTTPShutdown d) (events (Close env m))
          = http_events env m @ [Glog INFO [''END OF LINE'']]"
    unfolding ev d by (rule dropWhile_http_events [OF h])
  with h d res show ?thesis
    by (simp add: http_events_def Second_def)
qed

theorem Close_HTTP_shutdown_timeout_witness:
  "HTTPShutdown 5000000000 \<in> set (events (Close failing_env built_Server))
   \<and> result (Close failing_env built_Server) = Return None
   \<and> dropWhile (\<lambda>ev. ev \<noteq> HTTPShutdown 5000000000) (events (Close failing_env built_Server))
       = [HTTPShutdown 5000000000, Glog ERROR [''context deadline exceeded''], CtxCancel,
          Glog INFO [''END OF LINE'']]"
proof -
  have a: "HTTPShutdown 5000000000 \<in> set (events (Close failing_env built_Server))"
    by (simp add: Close_Return proj_defs built_Server_simps failing_env_simps http_events_def
          Second_def)
  show ?thesis
    using Close_HTTP_shutdown_timeout [OF a] a by (simp add: failing_env_simps)
qed

section \<open>What \<^verbatim>\<open>Close\<close> returns\<close>




section \<open>Idempotence of \<^verbatim>\<open>Close\<close>\<close>

lemma Close_calls_done:
  "closeOnce m \<Longrightarrow> Close_calls envs m = (replicate (length envs) (Return None), m, [])"
  by (induction envs) (simp_all add: Close_done)

lemma closeOnce_closed_Server: "closeOnce (closed_Server m) = closeOnce m"
  by (simp add: closed_Server_def)

lemma count_start_tailer_events:
  "count_list (tailer_events env m) (Glog INFO [''Shutdown requested.'']) = 0"
  by (simp add: tailer_events_def split: option.splits)

lemma count_start_loader_events:
  "count_list (loader_events m) (Glog INFO [''Shutdown requested.'']) = 0"
  by (simp add: loader_events_def)

lemma count_start_http_events:
  "count_list (http_events env m) (Glog INFO [''Shutdown requested.'']) = 0"
  by (simp add: http_events_def split: option.splits)

lemma set_update_notin: "x \<notin> set cs \<Longrightarrow> y \<noteq> x \<Longrightarrow> x \<notin> set (cs[i := y])"
  using set_update_subset_insert [of cs i y] by auto

lemma set_update_iff:
  assumes "i < length cs" "cs ! i \<noteq> x" "y \<noteq> x"
  shows "x \<in> set (cs[i := y]) \<longleftrightarrow> x \<in> set cs"
proof
  assume "x \<in> set (cs[i := y])"
  then show "x \<in> set cs"
    using set_update_notin [of x cs y i] assms(3) by blast
next
  assume "x \<in> set cs"
  then obtain j where j: "j < length cs" "cs ! j = x"
    by (auto simp add: in_set_conv_nth)
  with assms(2) have "j \<noteq> i" by auto
  with j have "cs[i := y] ! j = x" "j < length (cs[i := y])" by simp_all
  then show "x \<in> set (cs[i := y])"
    by (metis nth_mem)
qed

lemma InDo_notin_iff: "InDo \<notin> set cs \<longleftrightarrow> (\<forall>j < length cs. cs ! j \<noteq> InDo)"
  by (auto simp add: in_set_conv_nth)

lemma Close_open_eq:
  assumes "\<not> closeOnce m"
  shows "Close_func env m = (Return (), m1, evs1) \<Longrightarrow>
           Close env m = (Return None, m1\<lparr>closeOnce := True\<rparr>, evs1)"
    and "Close_func env m = (Panic s, m1, evs1) \<Longrightarrow>
           Close env m = (Panic s, m1\<lparr>closeOnce := True\<rparr>, evs1)"
    and "Close_func env m = (Block, m1, evs1) \<Longrightarrow> Close env m = (Block, m1, evs1)"
  using assms by (simp_all add: Close_def closeOnce_Do_def andThen_def ret_def)

text \<open>The function literal does not touch the guard.\<close>

lemma closeOnce_Close_func: "closeOnce (server (Close_func env m)) = closeOnce m"
proof -
  consider "closeQuit m \<noteq> OpenChan"
    | "closeQuit m = OpenChan" "m_t m = None" "lines m \<noteq> OpenChan"
    | "closeQuit m = OpenChan" "m_t m \<noteq> None \<or> lines m = OpenChan"
      "m_l m \<noteq> None" "\<not> VMsDone_closed env"
    | "closeQuit m = OpenChan" "m_t m \<noteq> None \<or> lines m = OpenChan"
      "m_l m = None \<or> VMsDone_closed env"
    by atomize_elim auto
  then show ?thesis
    by cases
       (simp_all add: Close_func_closeQuit_Panic Close_func_lines_Panic Close_func_Block
          Close_func_Return proj_defs closed_Server_def)
qed

text \<open>
  What holds of every configuration concurrent callers can reach. Before the function
  has run nothing has been performed, nobody has returned and at most one caller runs the
  function. Once the guard is shut, what has been performed is what one call performs.
  When the function has blocked, that too is what has been performed, the guard is open,
  and nobody has returned.
\<close>

lemma concurrent_Close_invariant:
  assumes "concurrent_Close env m0 n (m, evs, cs)" "\<not> closeOnce m0"
  shows "length cs = n
       \<and> (if closeOnce m
          then evs = events (Close env m0) \<and> m = server (Close env m0) \<and> InDo \<notin> set cs
             \<and> Blocked \<notin> set cs
          else if Blocked \<in> set cs
          then evs = events (Close env m0) \<and> m = server (Close env m0)
             \<and> result (Close env m0) = Block \<and> InDo \<notin> set cs \<and> Returned \<notin> set cs
             \<and> Panicked \<notin> set cs
          else evs = [] \<and> m = m0 \<and> Returned \<notin> set cs \<and> Panicked \<notin> set cs
             \<and> (\<forall>i < length cs. \<forall>j < length cs. cs ! i = InDo \<and> cs ! j = InDo \<longrightarrow> i = j))"
  using assms
proof (induction "(m, evs, cs)" arbitrary: m evs cs rule: concurrent_Close.induct)
  case init
  then show ?case by simp
next
  case (fast m evs cs i)
  then show ?case by (simp add: set_update_notin)
next
  case (slow m evs cs i)
  then show ?case by (simp add: set_update_iff nth_list_update)
next
  case (lock_run m evs cs i)
  then show ?case by (simp add: set_update_iff nth_list_update InDo_notin_iff)
next
  case (lock_done m evs cs i)
  then show ?case by (simp add: set_update_notin)
next
  case (run_return m evs cs i m1 evs1)
  from run_return.hyps(3,4) have "InDo \<in> set cs"
    by (metis nth_mem)
  with run_return.hyps(2) [OF run_return.prems] have inv: "length cs = n" "evs = []" "m = m0"
      "Blocked \<notin> set cs"
      "\<forall>i < length cs. \<forall>j < length cs. cs ! i = InDo \<and> cs ! j = InDo \<longrightarrow> i = j"
    by (auto split: if_splits)
  have c: "Close env m0 = (Return None, m1\<lparr>closeOnce := True\<rparr>, evs1)"
    using Close_open_eq(1) [OF run_return.prems] run_return.hyps(5) inv(3) by simp
  have "InDo \<notin> set (cs[i := Returned])"
    unfolding InDo_notin_iff using inv(5) run_return.hyps(3,4)
    by (auto simp add: nth_list_update)
  with c inv show ?case by (simp add: proj_defs set_update_notin)
next
  case (run_panic m evs cs i s m1 evs1)
  from run_panic.hyps(3,4) have "InDo \<in> set cs"
    by (metis nth_mem)
  with run_panic.hyps(2) [OF run_panic.prems] have inv: "length cs = n" "evs = []" "m = m0"
      "Blocked \<notin> set cs"
      "\<forall>i < length cs. \<forall>j < length cs. cs ! i = InDo \<and> cs ! j = InDo \<longrightarrow> i = j"
    by (auto split: if_splits)
  have c: "Close env m0 = (Panic s, m1\<lparr>closeOnce := True\<rparr>, evs1)"
    using Close_open_eq(2) [OF run_panic.prems] run_panic.hyps(5) inv(3) by simp
  have "InDo \<notin> set (cs[i := Panicked])"
    unfolding InDo_notin_iff using inv(5) run_panic.hyps(3,4)
    by (auto simp add: nth_list_update)
  with c inv show ?case by (simp add: proj_defs set_update_notin)
next
  case (run_block m evs cs i m1 evs1)
  from run_block.hyps(3,4) have "InDo \<in> set cs"
    by (metis nth_mem)
  with run_block.hyps(2) [OF run_block.prems] have inv: "length cs = n" "evs = []" "m = m0"
      "Returned \<notin> set cs" "Panicked \<notin> set cs"
      "\<forall>i < length cs. \<forall>j < length cs. cs ! i = InDo \<and> cs ! j = InDo \<longrightarrow> i = j"
    by (auto split: if_splits)
  have c: "Close env m0 = (Block, m1, evs1)"
    using Close_open_eq(3) [OF run_block.prems] run_block.hyps(5) inv(3) by simp
  have g: "\<not> closeOnce m1"
    using closeOnce_Close_func [of env m0] run_block.hyps(5) run_block.prems inv(3)
    by (simp add: proj_defs)
  have b: "Blocked \<in> set (cs[i := Blocked])"
    using run_block.hyps(3) by (simp add: set_update_memI)
  have "InDo \<notin> set (cs[i := Blocked])"
    unfolding InDo_notin_iff using inv(6) run_block.hyps(3,4)
    by (auto simp add: nth_list_update)
  with c g b inv show ?case by (simp add: proj_defs set_update_notin)
qed

lemma distinct_shutdown_order:
  "distinct (ChanClose ''closeQuit''
               # (if m_t m \<noteq> None then TailerClose else ChanClose ''lines'')
               # (if m_l m \<noteq> None then [RecvVMsDone] else [])
               @ (if m_h m \<noteq> None then [HTTPShutdown (5 * Second)] else []))"
  by simp

text \<open>What any number of calls in a row come to, after the first.\<close>

lemma Close_calls_eq:
  "Close_calls (env # envs) m
     = (result (Close env m)
          # replicate (length envs) (if result (Close env m) = Block then Block else Return None),
        server (Close env m), events (Close env m))"
proof (cases rule: Close_cases [where m=m and env=env])
  case already
  then show ?thesis by (simp add: Close_done Close_calls_done proj_defs)
next
  case bad_closeQuit
  then show ?thesis by (simp add: Close_closeQuit_Panic Close_calls_done proj_defs)
next
  case bad_lines
  then show ?thesis by (simp add: Close_lines_Panic Close_calls_done proj_defs)
next
  case blocked
  then show ?thesis by (simp add: Close_Block proj_defs)
next
  case returns
  then show ?thesis
    by (simp add: Close_Return Close_calls_done closeOnce_closed_Server proj_defs)
qed

lemma Close_steps:
  assumes "\<not> closeOnce m"
  shows "prefix (filter is_shutdown_step (events (Close env m)))
           (ChanClose ''closeQuit''
              # (if m_t m \<noteq> None then TailerClose else ChanClose ''lines'')
              # (if m_l m \<noteq> None then [RecvVMsDone] else [])
              @ (if m_h m \<noteq> None then [HTTPShutdown (5 * Second)] else []))
       \<and> (result (Close env m) = Return None
            \<longrightarrow> filter is_shutdown_step (events (Close env m))
                = ChanClose ''closeQuit''
                    # (if m_t m \<noteq> None then TailerClose else ChanClose ''lines'')
                    # (if m_l m \<noteq> None then [RecvVMsDone] else [])
                    @ (if m_h m \<noteq> None then [HTTPShutdown (5 * Second)] else []))"
proof (cases rule: Close_cases [where m=m and env=env])
  case already
  with assms show ?thesis by simp
next
  case bad_closeQuit
  then show ?thesis
    by (simp add: Close_closeQuit_Panic proj_defs is_shutdown_step_def)
next
  case bad_lines
  then show ?thesis
    by (simp add: Close_lines_Panic proj_defs is_shutdown_step_def)
next
  case blocked
  then show ?thesis
    by (simp add: Close_Block proj_defs filter_tailer_events) (simp add: is_shutdown_step_def)
next
  case returns
  then show ?thesis
    by (simp add: Close_Return proj_defs filter_tailer_events filter_loader_events
          filter_http_events) (auto simp add: is_shutdown_step_def)
qed

lemma count_start_Close:
  "count_list (events (Close env m)) (Glog INFO [''Shutdown requested.''])
     = (if closeOnce m then 0 else 1)"
  by (cases rule: Close_cases [where m=m and env=env])
     (simp_all add: Close_done Close_closeQuit_Panic Close_lines_Panic Close_Block Close_Return
        proj_defs count_start_tailer_events count_start_loader_events count_start_http_events)

lemma closeOnce_after_Close: "result (Close env m) \<noteq> Block \<Longrightarrow> closeOnce (server (Close env m))"
  by (cases rule: Close_cases [where m=m and env=env])
     (simp_all add: Close_done Close_closeQuit_Panic Close_lines_Panic Close_Block Close_Return
        proj_defs closeOnce_closed_Server)

text \<open>
  Claim C3, as amended. A call of \<^verbatim>\<open>Close\<close> that finds the once-guard shut returns
  nil, leaves the server as it is and performs nothing. A call that finds it open starts
  the shutdown sequence, exactly once, and leaves the guard shut unless it blocks. So
  of any number of calls made one after the other, with whatever the collaborators
  answer to each, only the first performs anything: together the calls perform the events
  of the first and leave the server the first leaves; the shutdown steps they perform are
  a prefix of the sequence of steps of the server, each step at most once, and the whole
  sequence when the first call returns. The later calls all return nil when the first has
  returned or panicked, and all block when the first has blocked: they wait for it inside
  \<^verbatim>\<open>closeOnce.Do\<close>. The same holds of concurrent callers in any interleaving. In
  every configuration they can reach, either nothing has been performed and no call has
  ended, or what has been performed is exactly what one call of \<^verbatim>\<open>Close\<close> performs
  and nobody is running the function any more; and then either the guard is shut, or the
  one call has blocked and no caller has returned.
\<close>

theorem Close_idempotent:
  "(closeOnce m \<longrightarrow> Close env m = (Return None, m, []))
   \<and> (result (Close env m) \<noteq> Block \<longrightarrow> closeOnce (server (Close env m)))
   \<and> Close_calls (env # envs) m
       = (result (Close env m)
            # replicate (length envs)
                (if result (Close env m) = Block then Block else Return None),
          server (Close env m), events (Close env m))
   \<and> count_list (events (Close_calls (env # envs) m)) (Glog INFO [''Shutdown requested.''])
       = (if closeOnce m then 0 else 1)
   \<and> (\<not> closeOnce m
        \<longrightarrow> (let order = ChanClose ''closeQuit''
                      # (if m_t m \<noteq> None then TailerClose else ChanClose ''lines'')
                      # (if m_l m \<noteq> None then [RecvVMsDone] else [])
                      @ (if m_h m \<noteq> None then [HTTPShutdown (5 * Second)] else [])
             in distinct order
              \<and> prefix (filter is_shutdown_step (events (Close_calls (env # envs) m))) order
              \<and> (result (Close env m) = Return None
                   \<longrightarrow> filter is_shutdown_step (events (Close_calls (env # envs) m)) = order)))
   \<and> (\<not> closeOnce m \<and> concurrent_Close env m n (m', evs, cs)
        \<longrightarrow> length cs = n
          \<and> (evs = [] \<and> m' = m \<and> Returned \<notin> set cs \<and> Panicked \<notin> set cs
               \<and> Blocked \<notin> set cs
             \<or> evs = events (Close env m) \<and> m' = server (Close env m) \<and> InDo \<notin> set cs
               \<and> (closeOnce m' \<and> Blocked \<notin> set cs
                  \<or> result (Close env m) = Block \<and> Blocked \<in> set cs
                    \<and> Returned \<notin> set cs \<and> Panicked \<notin> set cs)))"
proof -
  have ev: "events (Close_calls (env # envs) m) = events (Close env m)"
    by (simp only: Close_calls_eq) (simp add: events_def)
  have 1: "closeOnce m \<longrightarrow> Close env m = (Return None, m, [])"
    by (simp add: Close_done)
  have 2: "result (Close env m) \<noteq> Block \<longrightarrow> closeOnce (server (Close env m))"
    by (simp add: closeOnce_after_Close)
  have 4: "count_list (events (Close_calls (env # envs) m)) (Glog INFO [''Shutdown requested.''])
       = (if closeOnce m then 0 else 1)"
    by (simp only: ev count_start_Close)
  have 5: "\<not> closeOnce m
        \<longrightarrow> (let order = ChanClose ''closeQuit''
                      # (if m_t m \<noteq> None then TailerClose else ChanClose ''lines'')
                      # (if m_l m \<noteq> None then [RecvVMsDone] else [])
                      @ (if m_h m \<noteq> None then [HTTPShutdown (5 * Second)] else [])
             in distinct order
              \<and> prefix (filter is_shutdown_step (events (Close_calls (env # envs) m))) order
              \<and> (result (Close env m) = Return None
                   \<longrightarrow> filter is_shutdown_step (events (Close_calls (env # envs) m)) = order))"
    unfolding Let_def ev using Close_steps [of m env] distinct_shutdown_order [of m]
    by blast
  have 6: "\<not> closeOnce m \<and> concurrent_Close env m n (m', evs, cs)
        \<longrightarrow> length cs = n
          \<and> (evs = [] \<and> m' = m \<and> Returned \<notin> set cs \<and> Panicked \<notin> set cs
               \<and> Blocked \<notin> set cs
             \<or> evs = events (Close env m) \<and> m' = server (Close env m) \<and> InDo \<notin> set cs
               \<and> (closeOnce m' \<and> Blocked \<notin> set cs
                  \<or> result (Close env m) = Block \<and> Blocked \<in> set cs
                    \<and> Returned \<notin> set cs \<and> Panicked \<notin> set cs))"
  proof (intro impI, elim conjE)
    assume a: "\<not> closeOnce m" "concurrent_Close env m n (m', evs, cs)"
    from concurrent_Close_invariant [OF a(2,1)] show "length cs = n
          \<and> (evs = [] \<and> m' = m \<and> Returned \<notin> set cs \<and> Panicked \<notin> set cs
               \<and> Blocked \<notin> set cs
             \<or> evs = events (Close env m) \<and> m' = server (Close env m) \<and> InDo \<notin> set cs
               \<and> (closeOnce m' \<and> Blocked \<notin> set cs
                  \<or> result (Close env m) = Block \<and> Blocked \<in> set cs
                    \<and> Returned \<notin> set cs \<and> Panicked \<notin> set cs))"
      by (cases "closeOnce m'"; cases "Blocked \<in> set cs") simp_all
  qed
  from 1 2 Close_calls_eq [of env envs m] 4 5 6 show ?thesis
    by blast
qed

text \<open>
  Three calls in a row on the server \<^verbatim>\<open>New\<close> builds, the later ones with failing
  collaborators: the four steps, once. And two concurrent callers, of which the second to
  arrive runs the shutdown while the first waits for the mutex.
\<close>

theorem Close_idempotent_witness:
  "Close_calls [quiet_env, failing_env, stuck_env] built_Server
       = ([Return None, Return None, Return None], server (Close quiet_env built_Server),
          events (Close quiet_env built_Server))
   \<and> filter is_shutdown_step
        (events (Close_calls [quiet_env, failing_env, stuck_env] built_Server))
       = [ChanClose ''closeQuit'', TailerClose, RecvVMsDone, HTTPShutdown 5000000000]
   \<and> closeOnce (server (Close quiet_env built_Server))
   \<and> Close quiet_env (server (Close quiet_env built_Server))
       = (Return None, server (Close quiet_env built_Server), [])
   \<and> concurrent_Close quiet_env built_Server 2
       (server (Close quiet_env built_Server), events (Close quiet_env built_Server),
        [Returned, Returned])"
proof -
  let ?bs = built_Server
  have b: "result (Close quiet_env ?bs) = Return None"
    by (simp add: Close_Return proj_defs built_Server_simps quiet_env_simps)
  obtain m1 evs1 where f: "Close_func quiet_env ?bs = (Return (), m1, evs1)"
    using Close_func_Return [of ?bs quiet_env] by (simp add: built_Server_simps quiet_env_simps)
  have c: "Close quiet_env ?bs = (Return None, m1\<lparr>closeOnce := True\<rparr>, evs1)"
    using Close_open_eq(1) [OF _ f] by (simp add: built_Server_simps)
  have 0: "concurrent_Close quiet_env ?bs 2 (?bs, [], [NotCalled, NotCalled])"
    using concurrent_Close.init [of quiet_env ?bs 2] by (simp add: numeral_2_eq_2)
  have 1: "concurrent_Close quiet_env ?bs 2 (?bs, [], [Waiting, NotCalled])"
    using concurrent_Close.slow [OF 0, of 0] by (simp add: built_Server_simps)
  have 2: "concurrent_Close quiet_env ?bs 2 (?bs, [], [Waiting, Waiting])"
    using concurrent_Close.slow [OF 1, of 1] by (simp add: built_Server_simps)
  have 3: "concurrent_Close quiet_env ?bs 2 (?bs, [], [Waiting, InDo])"
    using concurrent_Close.lock_run [OF 2, of 1] by (simp add: built_Server_simps)
  have 4: "concurrent_Close quiet_env ?bs 2 (m1\<lparr>closeOnce := True\<rparr>, evs1, [Waiting, Returned])"
    using concurrent_Close.run_return [OF 3, of 1, OF _ _ f] by simp
  have 5: "concurrent_Close quiet_env ?bs 2 (m1\<lparr>closeOnce := True\<rparr>, evs1, [Returned, Returned])"
    using concurrent_Close.lock_done [OF 4, of 0] by simp
  have 6: "concurrent_Close quiet_env built_Server 2
       (server (Close quiet_env built_Server), events (Close quiet_env built_Server),
        [Returned, Returned])"
    using 5 by (simp add: c proj_defs)
  have n: "\<not> closeOnce ?bs" "m_t ?bs \<noteq> None" "m_l ?bs \<noteq> None" "m_h ?bs \<noteq> None"
    by (simp_all add: built_Server_simps)
  note at_built = Close_idempotent
      [of ?bs quiet_env "[failing_env, stuck_env]" 2 "server (Close quiet_env built_Server)"
          "events (Close quiet_env built_Server)" "[Returned, Returned]"]
  note at_closed = Close_idempotent
      [where m="server (Close quiet_env built_Server)" and env=quiet_env, THEN conjunct1]
  have g: "closeOnce (server (Close quiet_env built_Server))"
    using at_built b by simp
  have k: "Close_calls [quiet_env, failing_env, stuck_env] built_Server
       = ([Return None, Return None, Return None], server (Close quiet_env built_Server),
          events (Close quiet_env built_Server))"
    using at_built [THEN conjunct2, THEN conjunct2, THEN conjunct1] b
    by (simp del: Close_calls.simps)
  have f: "filter is_shutdown_step
        (events (Close_calls [quiet_env, failing_env, stuck_env] built_Server))
       = [ChanClose ''closeQuit'', TailerClose, RecvVMsDone, HTTPShutdown 5000000000]"
    using at_built [THEN conjunct2, THEN conjunct2, THEN conjunct2, THEN conjunct2,
        THEN conjunct1] b n
    by (simp add: Let_def Second_def del: Close_calls.simps)
  have d: "Close quiet_env (server (Close quiet_env built_Server))
       = (Return None, server (Close quiet_env built_Server), [])"
    using at_closed g by blast
  from k f g d 6 show ?thesis
    by blast
qed

text \<open>
  The claim as stated has every later call return. On a server whose loader never
  closes \<^verbatim>\<open>VMsDone\<close> the first call blocks after the tailer's \<^verbatim>\<open>Close\<close>, and the
  second call blocks with it: of two concurrent callers, one is blocked in the function
  and the other waits for the mutex.
\<close>

theorem Close_idempotent_counterexample:
  "Close_calls [stuck_env, stuck_env] built_Server
     = ([Block, Block], closed_Server built_Server,
        [Glog INFO [''Shutdown requested.''], ChanClose ''closeQuit'', TailerClose])
   \<and> concurrent_Close stuck_env built_Server 2
       (closed_Server built_Server,
        [Glog INFO [''Shutdown requested.''], ChanClose ''closeQuit'', TailerClose],
        [Blocked, Waiting])"
proof -
  let ?bs = built_Server
  let ?evs = "[Glog INFO [''Shutdown requested.''], ChanClose ''closeQuit'', TailerClose]"
  have s: "\<not> VMsDone_closed stuck_env" "tailer_Close_err stuck_env = None"
    by (simp_all add: stuck_env_def quiet_env_def)
  have f: "Close_func stuck_env ?bs = (Block, closed_Server ?bs, ?evs)"
    using Close_func_Block [of ?bs stuck_env]
    by (simp add: built_Server_simps s tailer_events_def)
  have c: "Close stuck_env ?bs = (Block, closed_Server ?bs, ?evs)"
    using Close_open_eq(3) [OF _ f] by (simp add: built_Server_simps)
  have 0: "concurrent_Close stuck_env ?bs 2 (?bs, [], [NotCalled, NotCalled])"
    using concurrent_Close.init [of stuck_env ?bs 2] by (simp add: numeral_2_eq_2)
  have 1: "concurrent_Close stuck_env ?bs 2 (?bs, [], [Waiting, NotCalled])"
    using concurrent_Close.slow [OF 0, of 0] by (simp add: built_Server_simps)
  have 2: "concurrent_Close stuck_env ?bs 2 (?bs, [], [InDo, NotCalled])"
    using concurrent_Close.lock_run [OF 1, of 0] by (simp add: built_Server_simps)
  have 3: "concurrent_Close stuck_env ?bs 2 (closed_Server ?bs, ?evs, [Blocked, NotCalled])"
    using concurrent_Close.run_block [OF 2, of 0, OF _ _ f] by simp
  have 4: "concurrent_Close stuck_env ?bs 2 (closed_Server ?bs, ?evs, [Blocked, Waiting])"
    using concurrent_Close.slow [OF 3, of 1]
    by (simp add: closeOnce_closed_Server built_Server_simps)
  show ?thesis
    using 4 by (simp add: c)
qed

section \<open>Tailing\<close>

lemma StartTailing_loop_eq:
  "StartTailing_loop env ps m = (Return (), m, concat (map (pattern_events env) ps))"
  by (induction ps) (simp_all add: prog_defs call_TailPattern_def pattern_events_def
        split: option.splits)

lemma StartTailing_eq:
  "StartTailing env m = (Return None, m, concat (map (pattern_events env) (logPathPatterns m)))"
  by (simp add: StartTailing_def thenDo_def andThen_def StartTailing_loop_eq ret_def)

lemma filter_TailPattern_pattern_events:
  "filter is_TailPattern (concat (map (pattern_events env) ps)) = map TailPattern ps"
  by (induction ps) (simp_all add: pattern_events_def is_TailPattern_def split: option.splits)

lemma warning_in_pattern_events:
  "p \<in> set ps \<Longrightarrow> TailPattern_err env p = Some e \<Longrightarrow>
   Glog WARNING [e] \<in> set (concat (map (pattern_events env) ps))"
  by (induction ps) (auto simp add: pattern_events_def)

lemma no_fatal_pattern_events:
  "list_all (\<lambda>ev. \<not> is_fatal ev) (concat (map (pattern_events env) ps))"
  by (induction ps) (simp_all add: pattern_events_def is_fatal_def split: option.splits)

section \<open>What \<^verbatim>\<open>Run\<close> cannot do\<close>

lemma andThen_not_Exit:
  assumes "result (p m) \<noteq> Exit" "\<And>x m1. result (k x m1) \<noteq> Exit"
  shows "result (andThen p k m) \<noteq> Exit"
proof (cases "p m")
  case (fields r m1 evs1)
  show ?thesis
  proof (cases r)
    case (Return x)
    obtain r2 m2 evs2 where k: "k x m1 = (r2, m2, evs2)"
      by (cases "k x m1") auto
    from assms(2) [of x m1] k have "r2 \<noteq> Exit"
      by (simp add: proj_defs)
    with fields Return k show ?thesis
      by (simp add: andThen_def proj_defs)
  qed (use fields assms(1) in \<open>simp_all add: andThen_def proj_defs\<close>)
qed

lemma andThen_list_all:
  assumes "list_all P (events (p m))" "\<And>x m1. list_all P (events (k x m1))"
  shows "list_all P (events (andThen p k m))"
proof (cases "p m")
  case (fields r m1 evs1)
  show ?thesis
  proof (cases r)
    case (Return x)
    obtain r2 m2 evs2 where k: "k x m1 = (r2, m2, evs2)"
      by (cases "k x m1") auto
    from assms(2) [of x m1] k have "list_all P evs2"
      by (simp add: proj_defs)
    with fields Return k assms(1) show ?thesis
      by (simp add: andThen_def proj_defs)
  qed (use fields assms(1) in \<open>simp_all add: andThen_def proj_defs\<close>)
qed

lemma Close_not_Exit: "result (Close env m) \<noteq> Exit"
  by (cases rule: Close_cases [where m=m and env=env])
     (simp_all add: Close_done Close_closeQuit_Panic Close_lines_Panic Close_Block Close_Return
        proj_defs)

lemma no_fatal_Close: "list_all (\<lambda>ev. \<not> is_fatal ev) (events (Close env m))"
  by (cases rule: Close_cases [where m=m and env=env])
     (simp_all add: Close_done Close_closeQuit_Panic Close_lines_Panic Close_Block Close_Return
        proj_defs is_fatal_def tailer_events_def loader_events_def http_events_def
        split: option.splits)

lemma WriteMetrics_eq:
  "WriteMetrics env w m =
     (if store m = None then (Panic nil_dereference, m, [])
      else (Return (case MarshalIndent_result env of
                      Inl e \<Rightarrow> Some (''failed to marshal metrics into json: '' @ e)
                    | Inr b \<Rightarrow> Write_err env b),
            m,
            StoreRLock # JsonMarshalIndent # StoreRUnlock
              # (case MarshalIndent_result env of Inl e \<Rightarrow> [] | Inr b \<Rightarrow> [Write w b])))"
  by (simp add: WriteMetrics_def prog_defs split: sum.splits option.splits)

lemma select_case_not_Exit: "result (select_case env m) \<noteq> Exit"
  by (simp add: select_case_def proj_defs Let_def split: list.splits)

lemma no_fatal_select_case: "list_all (\<lambda>ev. \<not> is_fatal ev) (events (select_case env m))"
  by (simp add: select_case_def proj_defs Let_def is_fatal_def split: list.splits)

lemma WaitForShutdown_not_Exit: "result (WaitForShutdown env m) \<noteq> Exit"
  unfolding WaitForShutdown_def thenDo_def
  by (intro andThen_not_Exit)
     (simp_all add: Close_not_Exit [unfolded proj_defs] select_case_not_Exit [unfolded proj_defs]
        emit_def ret_def proj_defs split: option.splits)

lemma no_fatal_WaitForShutdown: "list_all (\<lambda>ev. \<not> is_fatal ev) (events (WaitForShutdown env m))"
  unfolding WaitForShutdown_def thenDo_def
  by (intro andThen_list_all)
     (simp_all add: no_fatal_Close [unfolded proj_defs]
        no_fatal_select_case [unfolded proj_defs] emit_def ret_def proj_defs
        split: option.splits, simp_all add: is_fatal_def)

lemma Serve_not_Exit: "result (Serve env m) \<noteq> Exit"
proof (cases "bindAddress m = []")
  case True
  then show ?thesis by (simp add: Serve_def ret_def proj_defs)
next
  case False
  then show ?thesis
    unfolding Serve_def thenDo_def
    by (simp only: if_False, intro andThen_not_Exit)
       (simp_all add: WaitForShutdown_not_Exit [unfolded proj_defs] emit_def set_Handler_def
          go_Serve_def recv_errc_def proj_defs split: option.splits)
qed

lemma no_fatal_Serve: "list_all (\<lambda>ev. \<not> is_fatal ev) (events (Serve env m))"
proof (cases "bindAddress m = []")
  case True
  then show ?thesis by (simp add: Serve_def ret_def proj_defs)
next
  case False
  then show ?thesis
    unfolding Serve_def thenDo_def
    by (simp only: if_False, intro andThen_list_all)
       (simp_all add: no_fatal_WaitForShutdown [unfolded proj_defs] emit_def set_Handler_def
          go_Serve_def recv_errc_def proj_defs split: option.splits, simp_all add: is_fatal_def)
qed

section \<open>\<^verbatim>\<open>StartTailing\<close> and the fatal exit of \<^verbatim>\<open>Run\<close>\<close>

lemma Run_compileOnly_eq:
  "compileOnly m \<Longrightarrow> Run env m = (Return None, m, [Glog INFO [''compile-only is set, exiting'']])"
  by (simp add: Run_def prog_defs)

lemma Run_oneShot_eq:
  assumes "\<not> compileOnly m" "oneShot m"
  shows "Run env m =
     (case Close env m of
        (Return None, m1, evs) \<Rightarrow>
          (result (WriteMetrics env Stdout m1), m1,
           concat (map (pattern_events env) (logPathPatterns m)) @ evs
             @ Printf ''Metrics store:'' # events (WriteMetrics env Stdout m1))
      | (Return (Some e), m1, evs) \<Rightarrow>
          (Return (Some e), m1, concat (map (pattern_events env) (logPathPatterns m)) @ evs)
      | (Panic s, m1, evs) \<Rightarrow>
          (Panic s, m1, concat (map (pattern_events env) (logPathPatterns m)) @ evs)
      | (Block, m1, evs) \<Rightarrow>
          (Block, m1, concat (map (pattern_events env) (logPathPatterns m)) @ evs)
      | (Exit, m1, evs) \<Rightarrow>
          (Exit, m1, concat (map (pattern_events env) (logPathPatterns m)) @ evs)
      | (Crash s, m1, evs) \<Rightarrow>
          (Crash s, m1, concat (map (pattern_events env) (logPathPatterns m)) @ evs))"
  using assms
  by (simp add: Run_def andThen_def thenDo_def StartTailing_eq WriteMetrics_eq emit_def ret_def
        proj_defs split: prod.splits outcome.splits option.splits sum.splits)

lemma Run_serving_eq:
  assumes "\<not> compileOnly m" "\<not> oneShot m"
  shows "Run env m =
     andThen (\<lambda>m. (Return (), m,
                concat (map (pattern_events env) (logPathPatterns m))
                  @ [StoreStartGcLoop (expiredMetricGcTickInterval m),
                     TailerStartGcLoop (staleLogGcTickInterval m)]))
       (\<lambda>u. andThen (Serve env)
          (\<lambda>err. case err of Some e \<Rightarrow> ret (Some e) | None \<Rightarrow> ret None)) m"
  using assms
  by (simp add: Run_def andThen_def thenDo_def StartTailing_eq emit_def ret_def
        split: prod.splits outcome.splits option.splits)

lemma StartTailing_proj:
  "result (StartTailing env m) = Return None"
  "server (StartTailing env m) = m"
  "events (StartTailing env m) = concat (map (pattern_events env) (logPathPatterns m))"
  by (simp_all add: StartTailing_eq proj_defs)

lemma WriteMetrics_proj:
  "result (WriteMetrics env w m) =
     (if store m = None then Panic nil_dereference
      else Return (case MarshalIndent_result env of
                     Inl e \<Rightarrow> Some (''failed to marshal metrics into json: '' @ e)
                   | Inr b \<Rightarrow> Write_err env b))"
  "server (WriteMetrics env w m) = m"
  "events (WriteMetrics env w m) =
     (if store m = None then []
      else StoreRLock # JsonMarshalIndent # StoreRUnlock
             # (case MarshalIndent_result env of Inl e \<Rightarrow> [] | Inr b \<Rightarrow> [Write w b]))"
  by (simp_all add: WriteMetrics_eq proj_defs)

lemma Run_oneShot_proj:
  assumes "\<not> compileOnly m" "oneShot m"
  shows "events (Run env m) =
           events (StartTailing env m) @ events (Close env m)
           @ (if result (Close env m) = Return None
              then Printf ''Metrics store:'' # events (WriteMetrics env Stdout (server (Close env m)))
              else [])"
    and "result (Run env m) =
           (if result (Close env m) = Return None
            then result (WriteMetrics env Stdout (server (Close env m)))
            else result (Close env m))"
    and "server (Run env m) = server (Close env m)"
proof -
  obtain r m1 evs where c: "Close env m = (r, m1, evs)"
    by (cases "Close env m") auto
  have "events (Run env m) =
           events (StartTailing env m) @ events (Close env m)
           @ (if result (Close env m) = Return None
              then Printf ''Metrics store:'' # events (WriteMetrics env Stdout (server (Close env m)))
              else [])
     \<and> result (Run env m) =
           (if result (Close env m) = Return None
            then result (WriteMetrics env Stdout (server (Close env m)))
            else result (Close env m))
     \<and> server (Run env m) = server (Close env m)"
  proof (cases r)
    case (Return x)
    then show ?thesis
      by (cases x) (simp_all add: Run_oneShot_eq [OF assms] c StartTailing_eq proj_defs)
  qed (simp_all add: Run_oneShot_eq [OF assms] c StartTailing_eq proj_defs)
  then show "events (Run env m) =
           events (StartTailing env m) @ events (Close env m)
           @ (if result (Close env m) = Return None
              then Printf ''Metrics store:'' # events (WriteMetrics env Stdout (server (Close env m)))
              else [])"
    and "result (Run env m) =
           (if result (Close env m) = Return None
            then result (WriteMetrics env Stdout (server (Close env m)))
            else result (Close env m))"
    and "server (Run env m) = server (Close env m)"
    by simp_all
qed

lemma Run_not_Exit: "result (Run env m) \<noteq> Exit"
proof -
  consider "compileOnly m" | "\<not> compileOnly m" "oneShot m" | "\<not> compileOnly m" "\<not> oneShot m"
    by blast
  then show ?thesis
  proof cases
    case 1
    then show ?thesis by (simp add: Run_compileOnly_eq proj_defs)
  next
    case 2
    then show ?thesis
      by (simp add: Run_oneShot_proj Close_not_Exit WriteMetrics_proj)
  next
    case 3
    show ?thesis
      unfolding Run_serving_eq [OF 3]
      by (intro andThen_not_Exit)
         (simp_all add: Serve_not_Exit [unfolded proj_defs] ret_def proj_defs split: option.splits)
  qed
qed

lemma no_fatal_Run: "list_all (\<lambda>ev. \<not> is_fatal ev) (events (Run env m))"
proof -
  consider "compileOnly m" | "\<not> compileOnly m" "oneShot m" | "\<not> compileOnly m" "\<not> oneShot m"
    by blast
  then show ?thesis
  proof cases
    case 1
    then show ?thesis by (simp add: Run_compileOnly_eq proj_defs is_fatal_def)
  next
    case 2
    have "list_all (\<lambda>ev. \<not> is_fatal ev)
            (Printf ''Metrics store:'' # events (WriteMetrics env Stdout (server (Close env m))))"
      by (simp add: WriteMetrics_proj is_fatal_def split: sum.splits)
    with 2 show ?thesis
      by (simp add: Run_oneShot_proj StartTailing_proj no_fatal_pattern_events no_fatal_Close)
  next
    case 3
    show ?thesis
      unfolding Run_serving_eq [OF 3]
      using no_fatal_pattern_events [of env "logPathPatterns m"]
      by (intro andThen_list_all)
         (simp_all add: no_fatal_Serve [unfolded proj_defs] ret_def proj_defs split: option.splits,
          simp_all add: is_fatal_def)
  qed
qed

lemma oneShot_Server_simps:
  "\<not> closeOnce oneShot_Server" "closeQuit oneShot_Server = OpenChan"
  "lines oneShot_Server = OpenChan"
  "m_t oneShot_Server = Some \<lparr>tailer_opts = [OneShot]\<rparr>"
  "m_l oneShot_Server = Some \<lparr>loader_programPath = [], loader_opts = []\<rparr>"
  "m_h oneShot_Server = Some \<lparr>Handler = []\<rparr>"
  "logPathPatterns oneShot_Server = [''/var/log/a*.log'', ''/var/log/b.log'']"
  "oneShot oneShot_Server" "\<not> compileOnly oneShot_Server"
  "store oneShot_Server = Some 0"
  by (simp_all add: oneShot_Server_def built_Server_simps)

text \<open>
  Claim C9. \<^verbatim>\<open>StartTailing\<close> returns nil for every list of log path patterns and
  whatever \<^verbatim>\<open>TailPattern\<close> answers, and leaves the server as it is. It calls
  \<^verbatim>\<open>TailPattern\<close> on every pattern of the list, in order, the ones after a failure
  included, and logs every failure as a warning. So \<^verbatim>\<open>Run\<close> never takes the branch
  that ends the process with \<^verbatim>\<open>glog.Exitf\<close>: it never ends the process and logs
  nothing at that severity.
\<close>

theorem StartTailing_returns_nil:
  "result (StartTailing env m) = Return None
   \<and> server (StartTailing env m) = m
   \<and> filter is_TailPattern (events (StartTailing env m)) = map TailPattern (logPathPatterns m)
   \<and> (\<forall>p e. p \<in> set (logPathPatterns m) \<and> TailPattern_err env p = Some e
          \<longrightarrow> Glog WARNING [e] \<in> set (events (StartTailing env m)))
   \<and> result (Run env m) \<noteq> Exit
   \<and> list_all (\<lambda>ev. \<not> is_fatal ev) (events (Run env m))"
proof (intro conjI allI impI)
  show "filter is_TailPattern (events (StartTailing env m)) = map TailPattern (logPathPatterns m)"
    by (simp only: StartTailing_proj filter_TailPattern_pattern_events)
next
  fix p e
  assume "p \<in> set (logPathPatterns m) \<and> TailPattern_err env p = Some e"
  then show "Glog WARNING [e] \<in> set (events (StartTailing env m))"
    unfolding StartTailing_proj by (elim conjE) (rule warning_in_pattern_events)
qed (simp_all only: StartTailing_proj Run_not_Exit no_fatal_Run not_False_eq_True)

text \<open>Two patterns, the first of which cannot be tailed: the second is tried all the same.\<close>

theorem StartTailing_returns_nil_witness:
  "result (StartTailing glob_env oneShot_Server) = Return None
   \<and> filter is_TailPattern (events (StartTailing glob_env oneShot_Server))
       = [TailPattern ''/var/log/a*.log'', TailPattern ''/var/log/b.log'']
   \<and> Glog WARNING [''syntax error in pattern'']
       \<in> set (events (StartTailing glob_env oneShot_Server))
   \<and> result (Run glob_env oneShot_Server) \<noteq> Exit"
proof -
  have p: "''/var/log/a*.log'' \<in> set (logPathPatterns oneShot_Server)
           \<and> TailPattern_err glob_env ''/var/log/a*.log'' = Some ''syntax error in pattern''"
    by (simp add: oneShot_Server_simps glob_env_def)
  from StartTailing_returns_nil [of glob_env oneShot_Server] p show ?thesis
    by (auto simp add: oneShot_Server_simps)
qed

section \<open>Compile-only mode\<close>

text \<open>
  Claim C5. With \<^verbatim>\<open>compileOnly\<close> set, \<^verbatim>\<open>Run\<close> logs that it exits and returns nil
  at once: the server is left as it is, no pattern is tailed, no garbage collection loop
  and no web server is started, and no step of the shutdown is performed.
\<close>

theorem Run_compileOnly:
  assumes "compileOnly m"
  shows "result (Run env m) = Return None
       \<and> server (Run env m) = m
       \<and> events (Run env m) = [Glog INFO [''compile-only is set, exiting'']]
       \<and> list_all (\<lambda>ev. \<not> is_TailPattern ev \<and> \<not> starts_gc_or_http ev \<and> \<not> is_shutdown_step ev)
           (events (Run env m))"
  using assms
  by (simp add: Run_compileOnly_eq proj_defs is_TailPattern_def starts_gc_or_http_def
        is_shutdown_step_def)

theorem Run_compileOnly_witness:
  "compileOnly (oneShot_Server\<lparr>compileOnly := True\<rparr>)
   \<and> Run glob_env (oneShot_Server\<lparr>compileOnly := True\<rparr>)
       = (Return None, oneShot_Server\<lparr>compileOnly := True\<rparr>,
          [Glog INFO [''compile-only is set, exiting'']])"
  using Run_compileOnly [of "oneShot_Server\<lparr>compileOnly := True\<rparr>" glob_env]
  by (simp add: proj_defs prod_eq_iff)

section \<open>One-shot mode\<close>

lemma pattern_events_quiet:
  "list_all (\<lambda>ev. \<not> is_stdout ev \<and> \<not> is_shutdown_step ev \<and> \<not> starts_gc_or_http ev)
     (concat (map (pattern_events env) ps))"
  by (induction ps)
     (simp_all add: pattern_events_def is_stdout_def is_shutdown_step_def starts_gc_or_http_def
        split: option.splits)

lemma Close_quiet:
  "list_all (\<lambda>ev. \<not> is_stdout ev \<and> \<not> is_TailPattern ev \<and> \<not> starts_gc_or_http ev)
     (events (Close env m))"
  by (cases rule: Close_cases [where m=m and env=env])
     (simp_all add: Close_done Close_closeQuit_Panic Close_lines_Panic Close_Block Close_Return
        proj_defs is_stdout_def is_TailPattern_def starts_gc_or_http_def tailer_events_def
        loader_events_def http_events_def split: option.splits)

lemma WriteMetrics_quiet:
  "list_all (\<lambda>ev. \<not> is_TailPattern ev \<and> \<not> is_shutdown_step ev \<and> \<not> starts_gc_or_http ev)
     (Printf ''Metrics store:'' # events (WriteMetrics env Stdout m))"
  by (simp add: WriteMetrics_proj is_TailPattern_def is_shutdown_step_def starts_gc_or_http_def
        split: sum.splits)

lemma list_all_conjD:
  "list_all (\<lambda>x. P x \<and> Q x \<and> R x) xs \<Longrightarrow> list_all P xs \<and> list_all Q xs \<and> list_all R xs"
  by (induction xs) simp_all

lemma filter_False_list_all: "list_all (\<lambda>x. \<not> P x) xs \<Longrightarrow> filter P xs = []"
  by (induction xs) simp_all

lemma store_Close: "store (server (Close env m)) = store m"
  by (cases rule: Close_cases [where m=m and env=env])
     (simp_all add: Close_done Close_closeQuit_Panic Close_lines_Panic Close_Block Close_Return
        proj_defs closed_Server_def)

text \<open>
  Claim C2, as amended. For every server with \<^verbatim>\<open>oneShot\<close> set and \<^verbatim>\<open>compileOnly\<close>
  not set, \<^verbatim>\<open>Run\<close> first tails every log path pattern, then calls \<^verbatim>\<open>Close\<close>,
  which performs the shutdown unless it has been performed before (and waits for
  \<^verbatim>\<open>VMsDone\<close> when there is a loader), and only when \<^verbatim>\<open>Close\<close> has returned does
  it print the heading and dump the metrics on standard output. On a server that has a
  store it marshals them and, if that succeeds, writes the JSON text, and it returns the
  error of the marshalling or of the write, if any; on a server whose store is nil it
  panics on the nil pointer after the heading, with nothing marshalled or written. Nothing
  is printed before or during the shutdown, a \<^verbatim>\<open>Close\<close> that does not return leaves
  nothing printed, and \<^verbatim>\<open>Run\<close> starts neither a garbage collection loop nor the
  web server.
\<close>

theorem Run_oneShot:
  assumes "oneShot m" "\<not> compileOnly m"
  shows "events (Run env m) =
           events (StartTailing env m) @ events (Close env m)
           @ (if result (Close env m) = Return None
              then Printf ''Metrics store:''
                     # (if store m = None then []
                        else StoreRLock # JsonMarshalIndent # StoreRUnlock
                               # (case MarshalIndent_result env of
                                    Inl e \<Rightarrow> []
                                  | Inr b \<Rightarrow> [Write Stdout b]))
              else [])
       \<and> result (Run env m) =
           (if result (Close env m) = Return None
            then if store m = None then Panic nil_dereference
                 else Return (case MarshalIndent_result env of
                                Inl e \<Rightarrow> Some (''failed to marshal metrics into json: '' @ e)
                              | Inr b \<Rightarrow> Write_err env b)
            else result (Close env m))
       \<and> filter is_TailPattern (events (StartTailing env m)) = map TailPattern (logPathPatterns m)
       \<and> filter is_TailPattern (events (Run env m)) = map TailPattern (logPathPatterns m)
       \<and> filter is_shutdown_step (events (Run env m))
           = filter is_shutdown_step (events (Close env m))
       \<and> list_all (\<lambda>ev. \<not> is_shutdown_step ev) (events (StartTailing env m))
       \<and> list_all (\<lambda>ev. \<not> is_stdout ev) (events (StartTailing env m) @ events (Close env m))
       \<and> list_all (\<lambda>ev. \<not> starts_gc_or_http ev) (events (Run env m))"
proof -
  note p = list_all_conjD [OF pattern_events_quiet [of env "logPathPatterns m"]]
  note c = list_all_conjD [OF Close_quiet [of env m]]
  note w = list_all_conjD [OF WriteMetrics_quiet [of env "server (Close env m)"]]
  have ev: "events (Run env m) =
           events (StartTailing env m) @ events (Close env m)
           @ (if result (Close env m) = Return None
              then Printf ''Metrics store:'' # events (WriteMetrics env Stdout (server (Close env m)))
              else [])"
    and res: "result (Run env m) =
           (if result (Close env m) = Return None
            then result (WriteMetrics env Stdout (server (Close env m)))
            else result (Close env m))"
    by (rule Run_oneShot_proj [OF assms(2,1)])+
  have 1: "filter is_TailPattern (events (Run env m)) = map TailPattern (logPathPatterns m)"
    using c w
    by (simp add: ev StartTailing_proj filter_TailPattern_pattern_events filter_False_list_all)
  have 2: "filter is_shutdown_step (events (Run env m))
             = filter is_shutdown_step (events (Close env m))"
    using p w
    by (simp add: ev StartTailing_proj filter_False_list_all)
  have 3: "list_all (\<lambda>ev. \<not> starts_gc_or_http ev) (events (Run env m))"
    using p c w by (simp add: ev StartTailing_proj)
  have 4: "list_all (\<lambda>ev. \<not> is_stdout ev) (events (StartTailing env m) @ events (Close env m))"
    using p c by (simp add: StartTailing_proj)
  have 5: "list_all (\<lambda>ev. \<not> is_shutdown_step ev) (events (StartTailing env m))"
    using p by (simp add: StartTailing_proj)
  have 6: "filter is_TailPattern (events (StartTailing env m))
             = map TailPattern (logPathPatterns m)"
    by (simp add: StartTailing_proj filter_TailPattern_pattern_events)
  from ev res 1 2 3 4 5 6 show ?thesis
    by (simp only: WriteMetrics_proj store_Close simp_thms)
qed

text \<open>
  On a one-shot server as \<^verbatim>\<open>New\<close> builds it: the two patterns, the four shutdown
  steps and the dump, in this order.
\<close>

theorem Run_oneShot_witness:
  "oneShot oneShot_Server \<and> \<not> compileOnly oneShot_Server
   \<and> result (Run quiet_env oneShot_Server) = Return None
   \<and> events (Run quiet_env oneShot_Server) =
       [Glogf (V 1) ''Tail pattern %q'' [''/var/log/a*.log''], TailPattern ''/var/log/a*.log'',
        Glogf (V 1) ''Tail pattern %q'' [''/var/log/b.log''], TailPattern ''/var/log/b.log'',
        Glog INFO [''Shutdown requested.''], ChanClose ''closeQuit'', TailerClose, RecvVMsDone,
        HTTPShutdown 5000000000, CtxCancel, Glog INFO [''END OF LINE''],
        Printf ''Metrics store:'', StoreRLock, JsonMarshalIndent, StoreRUnlock,
        Write Stdout ''[]'']"
proof -
  have a: "oneShot oneShot_Server" "\<not> compileOnly oneShot_Server"
    by (simp_all add: oneShot_Server_simps)
  have c: "Close quiet_env oneShot_Server =
     (Return None, (closed_Server oneShot_Server)\<lparr>closeOnce := True\<rparr>,
      [Glog INFO [''Shutdown requested.''], ChanClose ''closeQuit'', TailerClose, RecvVMsDone,
       HTTPShutdown 5000000000, CtxCancel, Glog INFO [''END OF LINE'']])"
    by (simp add: Close_Return oneShot_Server_simps quiet_env_simps tailer_events_def
          loader_events_def http_events_def Second_def)
  show ?thesis
    using Run_oneShot [OF a, of quiet_env] a
    by (simp add: c StartTailing_eq pattern_events_def oneShot_Server_simps quiet_env_simps
          proj_defs)
qed

text \<open>
  The claim as stated has every such \<^verbatim>\<open>Run\<close> perform the full shutdown, the wait
  for \<^verbatim>\<open>VMsDone\<close> included, and write the snapshot. On a server whose shutdown
  has run before, the \<^verbatim>\<open>Close\<close> inside \<^verbatim>\<open>Run\<close> performs no step at all, and the
  snapshot is written all the same. On a server without a loader the snapshot is written
  without any wait for \<^verbatim>\<open>VMsDone\<close>. When the metrics cannot be marshalled, the
  shutdown is performed and no snapshot is written: \<^verbatim>\<open>Run\<close> returns the error. And
  on a server without a store the shutdown is performed, the heading is printed and
  \<^verbatim>\<open>Run\<close> panics: no snapshot is written.
\<close>

theorem Run_oneShot_counterexample:
  "filter is_shutdown_step (events (Run quiet_env (oneShot_Server\<lparr>closeOnce := True\<rparr>))) = []
   \<and> filter is_stdout (events (Run quiet_env (oneShot_Server\<lparr>closeOnce := True\<rparr>)))
       = [Printf ''Metrics store:'', Write Stdout ''[]'']
   \<and> filter is_shutdown_step (events (Run quiet_env (oneShot_Server\<lparr>m_l := None\<rparr>)))
       = [ChanClose ''closeQuit'', TailerClose, HTTPShutdown 5000000000]
   \<and> filter is_stdout (events (Run quiet_env (oneShot_Server\<lparr>m_l := None\<rparr>)))
       = [Printf ''Metrics store:'', Write Stdout ''[]'']
   \<and> filter is_stdout (events (Run marshal_env oneShot_Server)) = [Printf ''Metrics store:'']
   \<and> result (Run marshal_env oneShot_Server)
       = Return (Some ''failed to marshal metrics into json: json: unsupported value: NaN'')
   \<and> filter is_stdout (events (Run quiet_env (oneShot_Server\<lparr>store := None\<rparr>)))
       = [Printf ''Metrics store:'']
   \<and> result (Run quiet_env (oneShot_Server\<lparr>store := None\<rparr>))
       = Panic ''runtime error: invalid memory address or nil pointer dereference''"
proof -
  let ?m = "oneShot_Server\<lparr>closeOnce := True\<rparr>"
  let ?n = "oneShot_Server\<lparr>m_l := None\<rparr>"
  let ?s = "oneShot_Server\<lparr>store := None\<rparr>"
  have a: "\<not> compileOnly ?m" "oneShot ?m" "closeOnce ?m"
    "logPathPatterns ?m = [''/var/log/a*.log'', ''/var/log/b.log'']" "store ?m = Some 0"
    by (simp_all add: oneShot_Server_simps)
  have n: "\<not> compileOnly ?n" "oneShot ?n" "\<not> closeOnce ?n" "closeQuit ?n = OpenChan"
    "m_t ?n = Some \<lparr>tailer_opts = [OneShot]\<rparr>" "m_l ?n = None"
    "m_h ?n = Some \<lparr>Handler = []\<rparr>"
    "logPathPatterns ?n = [''/var/log/a*.log'', ''/var/log/b.log'']" "store ?n = Some 0"
    by (simp_all add: oneShot_Server_simps)
  have s: "\<not> compileOnly ?s" "oneShot ?s" "\<not> closeOnce ?s" "closeQuit ?s = OpenChan"
    "m_t ?s = Some \<lparr>tailer_opts = [OneShot]\<rparr>"
    "m_l ?s = Some \<lparr>loader_programPath = [], loader_opts = []\<rparr>"
    "m_h ?s = Some \<lparr>Handler = []\<rparr>"
    "logPathPatterns ?s = [''/var/log/a*.log'', ''/var/log/b.log'']" "store ?s = None"
    by (simp_all add: oneShot_Server_simps)
  have m: "MarshalIndent_result marshal_env = Inl ''json: unsupported value: NaN''"
    "VMsDone_closed marshal_env" "tailer_Close_err marshal_env = None"
    "Shutdown_err marshal_env = None" "TailPattern_err marshal_env p = None" for p
    by (simp_all add: marshal_env_def quiet_env_def)
  have 1: "events (Run quiet_env ?m) =
       [Glogf (V 1) ''Tail pattern %q'' [''/var/log/a*.log''], TailPattern ''/var/log/a*.log'',
        Glogf (V 1) ''Tail pattern %q'' [''/var/log/b.log''], TailPattern ''/var/log/b.log'',
        Printf ''Metrics store:'', StoreRLock, JsonMarshalIndent, StoreRUnlock,
        Write Stdout ''[]'']"
    by (simp add: Run_oneShot_eq [OF a(1,2)] Close_done [OF a(3)] a(4,5)
          WriteMetrics_eq pattern_events_def quiet_env_simps proj_defs)
  have cn: "Close quiet_env ?n =
     (Return None, (closed_Server ?n)\<lparr>closeOnce := True\<rparr>,
      [Glog INFO [''Shutdown requested.''], ChanClose ''closeQuit'', TailerClose,
       Glog (V 2) [''No loader, so not waiting for loader shutdown.''],
       HTTPShutdown 5000000000, CtxCancel, Glog INFO [''END OF LINE'']])"
    by (simp add: Close_Return n quiet_env_simps tailer_events_def
          loader_events_def http_events_def Second_def)
  have sn: "store ((closed_Server ?n)\<lparr>closeOnce := True\<rparr>) = Some 0"
    by (simp add: closed_Server_def oneShot_Server_simps)
  have 4: "events (Run quiet_env ?n) =
       [Glogf (V 1) ''Tail pattern %q'' [''/var/log/a*.log''], TailPattern ''/var/log/a*.log'',
        Glogf (V 1) ''Tail pattern %q'' [''/var/log/b.log''], TailPattern ''/var/log/b.log'',
        Glog INFO [''Shutdown requested.''], ChanClose ''closeQuit'', TailerClose,
        Glog (V 2) [''No loader, so not waiting for loader shutdown.''],
        HTTPShutdown 5000000000, CtxCancel, Glog INFO [''END OF LINE''],
        Printf ''Metrics store:'', StoreRLock, JsonMarshalIndent, StoreRUnlock,
        Write Stdout ''[]'']"
    by (simp add: Run_oneShot_eq [OF n(1,2)] cn n(8) sn
          WriteMetrics_eq pattern_events_def quiet_env_simps proj_defs)
  have c: "Close marshal_env oneShot_Server =
     (Return None, (closed_Server oneShot_Server)\<lparr>closeOnce := True\<rparr>,
      [Glog INFO [''Shutdown requested.''], ChanClose ''closeQuit'', TailerClose, RecvVMsDone,
       HTTPShutdown 5000000000, CtxCancel, Glog INFO [''END OF LINE'']])"
    by (simp add: Close_Return oneShot_Server_simps m tailer_events_def
          loader_events_def http_events_def Second_def)
  have so: "store ((closed_Server oneShot_Server)\<lparr>closeOnce := True\<rparr>) = Some 0"
    by (simp add: closed_Server_def oneShot_Server_simps)
  have 2: "events (Run marshal_env oneShot_Server) =
       [Glogf (V 1) ''Tail pattern %q'' [''/var/log/a*.log''], TailPattern ''/var/log/a*.log'',
        Glogf (V 1) ''Tail pattern %q'' [''/var/log/b.log''], TailPattern ''/var/log/b.log'',
        Glog INFO [''Shutdown requested.''], ChanClose ''closeQuit'', TailerClose, RecvVMsDone,
        HTTPShutdown 5000000000, CtxCancel, Glog INFO [''END OF LINE''],
        Printf ''Metrics store:'', StoreRLock, JsonMarshalIndent, StoreRUnlock]"
    and 3: "result (Run marshal_env oneShot_Server)
       = Return (Some ''failed to marshal metrics into json: json: unsupported value: NaN'')"
    by (simp_all add: Run_oneShot_eq oneShot_Server_simps c so
          WriteMetrics_eq pattern_events_def m proj_defs)
  have cs: "Close quiet_env ?s =
     (Return None, (closed_Server ?s)\<lparr>closeOnce := True\<rparr>,
      [Glog INFO [''Shutdown requested.''], ChanClose ''closeQuit'', TailerClose, RecvVMsDone,
       HTTPShutdown 5000000000, CtxCancel, Glog INFO [''END OF LINE'']])"
    by (simp add: Close_Return s quiet_env_simps tailer_events_def
          loader_events_def http_events_def Second_def)
  have ss: "store ((closed_Server ?s)\<lparr>closeOnce := True\<rparr>) = None"
    by (simp add: closed_Server_def s)
  have 5: "events (Run quiet_env ?s) =
       [Glogf (V 1) ''Tail pattern %q'' [''/var/log/a*.log''], TailPattern ''/var/log/a*.log'',
        Glogf (V 1) ''Tail pattern %q'' [''/var/log/b.log''], TailPattern ''/var/log/b.log'',
        Glog INFO [''Shutdown requested.''], ChanClose ''closeQuit'', TailerClose, RecvVMsDone,
        HTTPShutdown 5000000000, CtxCancel, Glog INFO [''END OF LINE''],
        Printf ''Metrics store:'']"
    and 6: "result (Run quiet_env ?s)
       = Panic ''runtime error: invalid memory address or nil pointer dereference''"
    by (simp_all add: Run_oneShot_eq [OF s(1,2)] cs s(8) ss
          WriteMetrics_eq pattern_events_def quiet_env_simps proj_defs nil_dereference_def)
  show ?thesis
    by (simp add: 1 2 3 4 5 6 is_shutdown_step_def is_stdout_def)
qed

section \<open>The quit endpoint\<close>

text \<open>
  Claim C10. On a request whose method is anything but \<^verbatim>\<open>POST\<close>, \<^verbatim>\<open>handleQuit\<close>
  adds the header \<^verbatim>\<open>Allow: POST\<close>, answers 405 Method Not Allowed, and leaves the
  server as it is: \<^verbatim>\<open>webquit\<close> is not closed. The channel is closed, and so the
  shutdown triggered, on a \<^verbatim>\<open>POST\<close> only; a \<^verbatim>\<open>POST\<close> that finds the channel open
  writes the body and closes it.
\<close>

theorem handleQuit_POST_only:
  "(Method \<noteq> ''POST''
      \<longrightarrow> handleQuit Method m
          = (Return (), m, [HeaderAdd ''Allow'' ''POST'', WriteHeader 405]))
   \<and> (ChanClose ''webquit'' \<in> set (events (handleQuit Method m))
        \<or> server (handleQuit Method m) \<noteq> m
      \<longrightarrow> Method = ''POST'')
   \<and> (Method = ''POST'' \<and> webquit m = OpenChan
      \<longrightarrow> handleQuit Method m
          = (Return (), m\<lparr>webquit := ClosedChan\<rparr>,
             [Write ResponseWriter ''Exiting...'', ChanClose ''webquit'']))"
  by (auto simp add: handleQuit_def prog_defs proj_defs close_webquit_def
        StatusMethodNotAllowed_def)

theorem handleQuit_POST_only_witness:
  "handleQuit ''GET'' built_Server
     = (Return (), built_Server, [HeaderAdd ''Allow'' ''POST'', WriteHeader 405])
   \<and> handleQuit ''POST'' built_Server
     = (Return (), built_Server\<lparr>webquit := ClosedChan\<rparr>,
        [Write ResponseWriter ''Exiting...'', ChanClose ''webquit''])"
proof -
  have w: "webquit built_Server = OpenChan"
    by (simp add: built_Server_def New_literal_def zero_Server_def)
  show ?thesis
    using handleQuit_POST_only [of "''GET''" built_Server]
      handleQuit_POST_only [of "''POST''" built_Server] w
    by simp
qed

section \<open>The initial load\<close>

lemma initLoader_eq:
  "initLoader env m =
     (case NewLoader_err env of
        Some e \<Rightarrow>
          (Return (Some e), m\<lparr>m_l := None\<rparr>, [NewLoader (programPath m) (initLoader_opts m)])
      | None \<Rightarrow>
          (if programPath m = []
           then (Return None,
                 m\<lparr>m_l := Some \<lparr>loader_programPath = programPath m,
                                   loader_opts = initLoader_opts m\<rparr>\<rparr>,
                 [NewLoader (programPath m) (initLoader_opts m)])
           else (Return (map_option compile_errors (LoadAllPrograms_errs env)),
                 m\<lparr>m_l := Some \<lparr>loader_programPath = programPath m,
                                   loader_opts = initLoader_opts m\<rparr>\<rparr>,
                 [NewLoader (programPath m) (initLoader_opts m), LoadAllPrograms])))"
  by (simp add: initLoader_def prog_defs call_NewLoader_def call_LoadAllPrograms_def
        split: option.splits)

lemma initExporter_ok:
  "exporter_New_err env = None \<Longrightarrow>
   initExporter env m =
     (Return None,
      m\<lparr>m_e := Some \<lparr>exporter_opts = initExporter_opts m\<rparr>, reg := Some registered\<rparr>,
      [ExporterNew (initExporter_opts m), Register ''exporter'', Register ''go'',
       Register ''process'', Register ''mtail_expvar'', SetVersion (buildInfo m),
       Register ''mtail_build_info''])"
  by (simp add: initExporter_def prog_defs call_exporter_New_def)

lemma New_load_errors:
  assumes "SetOption options (New_literal st w) = (Return None, m1, evs1)"
    "exporter_New_err env = None" "NewLoader_err env = None" "programPath m1 \<noteq> []"
    "LoadAllPrograms_errs env = Some d"
  shows "fst (New env st w options) = Return (Inl (compile_errors d))"
  using assms
  by (simp add: New_def New_steps_def andThen_def ret_def initExporter_ok initLoader_eq)

text \<open>
  Claim C4, as amended. When \<^verbatim>\<open>vm.NewLoader\<close> succeeds, \<^verbatim>\<open>programPath\<close> is not
  empty and the initial \<^verbatim>\<open>LoadAllPrograms\<close> reports errors, \<^verbatim>\<open>initLoader\<close> fails
  with the error whose message is \<^verbatim>\<open>Compile encountered errors:\<close>, a newline and the
  accumulated diagnostics; \<^verbatim>\<open>New\<close>, when its options and the exporter have
  succeeded and so the loader is reached, fails with the same error and answers no server.
  When \<^verbatim>\<open>programPath\<close> is empty no initial load is attempted, and \<^verbatim>\<open>initLoader\<close>
  succeeds if and only if \<^verbatim>\<open>vm.NewLoader\<close> has: it returns what \<^verbatim>\<open>vm.NewLoader\<close>
  returned. A failure of \<^verbatim>\<open>vm.NewLoader\<close> is returned as it is, without any load,
  whatever the program path.
\<close>

theorem initLoader_load_errors:
  "(NewLoader_err env = None \<and> programPath m \<noteq> [] \<and> LoadAllPrograms_errs env = Some d
      \<longrightarrow> result (initLoader env m)
            = Return (Some (''Compile encountered errors:'' @ CHR 0x0A # d))
        \<and> LoadAllPrograms \<in> set (events (initLoader env m)))
   \<and> (SetOption options (New_literal st w) = (Return None, m1, evs1)
        \<and> exporter_New_err env = None \<and> NewLoader_err env = None
        \<and> programPath m1 \<noteq> [] \<and> LoadAllPrograms_errs env = Some d
      \<longrightarrow> fst (New env st w options)
            = Return (Inl (''Compile encountered errors:'' @ CHR 0x0A # d)))
   \<and> (programPath m = []
      \<longrightarrow> LoadAllPrograms \<notin> set (events (initLoader env m))
        \<and> result (initLoader env m) = Return (NewLoader_err env))
   \<and> (NewLoader_err env = Some e
      \<longrightarrow> result (initLoader env m) = Return (Some e)
        \<and> LoadAllPrograms \<notin> set (events (initLoader env m)))"
proof (intro conjI impI)
  assume "SetOption options (New_literal st w) = (Return None, m1, evs1)
        \<and> exporter_New_err env = None \<and> NewLoader_err env = None
        \<and> programPath m1 \<noteq> [] \<and> LoadAllPrograms_errs env = Some d"
  then show "fst (New env st w options)
            = Return (Inl (''Compile encountered errors:'' @ CHR 0x0A # d))"
    using New_load_errors [of options st w m1 evs1 env d] by (simp add: compile_errors_def)
qed (auto simp add: initLoader_eq proj_defs compile_errors_def split: option.splits)

text \<open>
  With a program path set by an option and two diagnostics from the initial load,
  \<^verbatim>\<open>New\<close> answers the error that carries them; with no program path, nothing is
  loaded and \<^verbatim>\<open>initLoader\<close> succeeds.
\<close>

theorem initLoader_load_errors_witness:
  "fst (New load_errors_env (Some 0) (Some 0) [ProgramPath ''/etc/mtail''])
     = Return (Inl (''Compile encountered errors:'' @ CHR 0x0A # diagnostics))
   \<and> result (initLoader load_errors_env ((New_literal (Some 0) (Some 0))\<lparr>programPath := ''/etc/mtail''\<rparr>))
     = Return (Some (''Compile encountered errors:'' @ CHR 0x0A # diagnostics))
   \<and> result (initLoader load_errors_env (New_literal (Some 0) (Some 0))) = Return None
   \<and> LoadAllPrograms \<notin> set (events (initLoader load_errors_env (New_literal (Some 0) (Some 0))))
   \<and> result (initLoader no_loader_env (New_literal (Some 0) (Some 0)))
     = Return (Some ''loader needs a store and lines'')"
proof -
  let ?m0 = "New_literal (Some 0) (Some 0)"
  let ?m1 = "?m0\<lparr>programPath := ''/etc/mtail''\<rparr>"
  have e: "NewLoader_err load_errors_env = None" "exporter_New_err load_errors_env = None"
    "LoadAllPrograms_errs load_errors_env = Some diagnostics"
    "NewLoader_err no_loader_env = Some ''loader needs a store and lines''"
    by (simp_all add: load_errors_env_def no_loader_env_def quiet_env_def)
  have s: "SetOption [ProgramPath ''/etc/mtail''] ?m0 = (Return None, ?m1, [])"
    by (simp add: prog_defs ProgramPath_def)
  have p: "programPath ?m1 \<noteq> []" "programPath ?m0 = []"
    by (simp_all add: New_literal_def zero_Server_def)
  note at_path = initLoader_load_errors
    [where env=load_errors_env and m="?m1" and d=diagnostics
       and options="[ProgramPath ''/etc/mtail'']" and st="Some 0" and w="Some 0"
       and ?m1.0="?m1" and ?evs1.0="[]"]
  have 1: "fst (New load_errors_env (Some 0) (Some 0) [ProgramPath ''/etc/mtail''])
     = Return (Inl (''Compile encountered errors:'' @ CHR 0x0A # diagnostics))"
    using at_path [THEN conjunct2, THEN conjunct1] e s p by blast
  have 2: "result (initLoader load_errors_env ?m1)
     = Return (Some (''Compile encountered errors:'' @ CHR 0x0A # diagnostics))"
    using at_path [THEN conjunct1] e p by blast
  have 3: "LoadAllPrograms \<notin> set (events (initLoader load_errors_env ?m0))
     \<and> result (initLoader load_errors_env ?m0) = Return (NewLoader_err load_errors_env)"
    using initLoader_load_errors [where env=load_errors_env and m="?m0",
        THEN conjunct2, THEN conjunct2, THEN conjunct1] p
    by blast
  have 4: "result (initLoader no_loader_env ?m0) = Return (Some ''loader needs a store and lines'')"
    using initLoader_load_errors [where env=no_loader_env and m="?m0"
        and e="''loader needs a store and lines''",
        THEN conjunct2, THEN conjunct2, THEN conjunct2] e
    by blast
  from 1 2 3 4 show ?thesis
    by (simp only: e simp_thms)
qed

text \<open>
  The claim as stated has \<^verbatim>\<open>initLoader\<close> succeed whenever \<^verbatim>\<open>programPath\<close> is
  empty. When \<^verbatim>\<open>vm.NewLoader\<close> fails, \<^verbatim>\<open>initLoader\<close> returns its error, with an
  empty program path as with any other.
\<close>

theorem initLoader_empty_path_counterexample:
  "programPath zero_Server = []
   \<and> initLoader no_loader_env zero_Server
     = (Return (Some ''loader needs a store and lines''), zero_Server, [NewLoader [] []])"
proof -
  have e: "NewLoader_err no_loader_env = Some ''loader needs a store and lines''"
    by (simp add: no_loader_env_def quiet_env_def)
  have z: "programPath zero_Server = []" "initLoader_opts zero_Server = []"
    "zero_Server\<lparr>m_l := None\<rparr> = zero_Server"
    by (simp_all add: zero_Server_def initLoader_opts_def)
  show ?thesis
    by (simp add: initLoader_eq e z)
qed

section \<open>The dump options\<close>



end
